theory Spec2Isabelle
  imports Complex_Main "HOL-Library.Word" "HOL-Library.Log_Nat"
begin

section \<open>Go's float64: IEEE 754 binary64 with round-to-nearest-even\<close>

text \<open>
  A float64 is NaN, an infinity with its sign, or a finite number
  \<open>(-1)^s * m * 2^e\<close> given by sign, integer significand and exponent of the
  last bit. The finite values that the operations below produce are canonical:
  \<open>m < 2^53\<close>, \<open>-1074 \<le> e \<le> 971\<close>, and \<open>2^52 \<le> m\<close> unless \<open>e = -1074\<close>
  (subnormal numbers and the two zeros \<open>FFin s 0 (-1074)\<close>).
\<close>

datatype float64 = FNaN | FInf bool | FFin bool nat int

text \<open>\<open>m / 2^k\<close> rounded to the nearest integer, ties to even.\<close>

definition rne_shift :: "nat \<Rightarrow> nat \<Rightarrow> nat" where
  "rne_shift m k = (let q = m div 2 ^ k; r = m mod 2 ^ k in
     if 2 ^ k < 2 * r \<or> (2 * r = 2 ^ k \<and> odd q) then q + 1 else q)"

definition f64_pack :: "bool \<Rightarrow> nat \<Rightarrow> int \<Rightarrow> float64" where
  "f64_pack s m t =
     (if 971 < t then FInf s else if m = 0 then FFin s 0 (- 1074) else FFin s m t)"

text \<open>
  The float64 nearest to the exact value \<open>m * 2^e\<close>: the significand keeps 53 bits
  (fewer below \<open>2^-1022\<close>), a carry out of the rounding moves the exponent up, and
  a result of \<open>2^1024\<close> or more is an infinity.
\<close>

definition round_f64 :: "bool \<Rightarrow> nat \<Rightarrow> int \<Rightarrow> float64" where
  "round_f64 s m e =
     (if m = 0 then FFin s 0 (- 1074)
      else let t = max (int (floorlog 2 m) + e - 53) (- 1074) in
        if t \<le> e then f64_pack s (m * 2 ^ nat (e - t)) t
        else let m' = rne_shift m (nat (t - e)) in
          if m' = 2 ^ 53 then f64_pack s (2 ^ 52) (t + 1) else f64_pack s m' t)"

text \<open>The conversion \<^verbatim>\<open>float64(v)\<close> of an integer.\<close>

definition f64_of_int :: "int \<Rightarrow> float64" where
  "f64_of_int i = round_f64 (i < 0) (nat \<bar>i\<bar>) 0"

fun f64_mul :: "float64 \<Rightarrow> float64 \<Rightarrow> float64" where
  "f64_mul FNaN _ = FNaN"
| "f64_mul _ FNaN = FNaN"
| "f64_mul (FInf s) (FInf t) = FInf (s \<noteq> t)"
| "f64_mul (FInf s) (FFin t n f) = (if n = 0 then FNaN else FInf (s \<noteq> t))"
| "f64_mul (FFin s m e) (FInf t) = (if m = 0 then FNaN else FInf (s \<noteq> t))"
| "f64_mul (FFin s m e) (FFin t n f) = round_f64 (s \<noteq> t) (m * n) (e + f)"

definition f64_signed :: "bool \<Rightarrow> nat \<Rightarrow> int" where
  "f64_signed s m = (if s then - int m else int m)"

fun f64_add :: "float64 \<Rightarrow> float64 \<Rightarrow> float64" where
  "f64_add FNaN _ = FNaN"
| "f64_add _ FNaN = FNaN"
| "f64_add (FInf s) (FInf t) = (if s = t then FInf s else FNaN)"
| "f64_add (FInf s) (FFin t n f) = FInf s"
| "f64_add (FFin s m e) (FInf t) = FInf t"
| "f64_add (FFin s m e) (FFin t n f) =
     (let x = min e f;
          c = f64_signed s m * 2 ^ nat (e - x) + f64_signed t n * 2 ^ nat (f - x)
      in if c = 0 then FFin (s \<and> t) 0 (- 1074) else round_f64 (c < 0) (nat \<bar>c\<bar>) x)"

text \<open>The real number a finite float64 stands for.\<close>

fun f64_val :: "float64 \<Rightarrow> real option" where
  "f64_val FNaN = None"
| "f64_val (FInf s) = None"
| "f64_val (FFin s m e) =
     Some ((if s then - 1 else 1) *
           (if 0 \<le> e then real m * 2 ^ nat e else real m / 2 ^ nat (- e)))"

text \<open>The constants \<^verbatim>\<open>0\<close>, \<^verbatim>\<open>1\<close> and \<^verbatim>\<open>1e-6\<close> (bits \<^verbatim>\<open>0x3EB0C6F7A0B5ED8D\<close>) as float64.\<close>

definition f64_zero :: float64 where
  "f64_zero = FFin False 0 (- 1074)"

definition f64_one :: float64 where
  "f64_one = FFin False (2 ^ 52) (- 52)"

definition f64_1e_6 :: float64 where
  "f64_1e_6 = FFin False 4722366482869645 (- 72)"

section \<open>Cell values and value coercion\<close>

text \<open>
  A cell is the \<^verbatim>\<open>interface{}\<close> that \<^verbatim>\<open>rows.Scan\<close> stores: \<^verbatim>\<open>nil\<close>, an \<^verbatim>\<open>int64\<close>,
  a \<^verbatim>\<open>float64\<close>, a \<^verbatim>\<open>time.Time\<close> (kept as the \<^verbatim>\<open>int64\<close> its \<^verbatim>\<open>Unix()\<close> returns),
  a \<^verbatim>\<open>[]byte\<close>, a \<^verbatim>\<open>string\<close>, or a value of another dynamic type, for which
  \<^verbatim>\<open>bool\<close> stands.
\<close>

datatype cell =
    CNil
  | CInt "64 word"
  | CFloat float64
  | CTime "64 word"
  | CBytes string
  | CString string
  | CBool bool

text \<open>
  \<^verbatim>\<open>strconv.ParseFloat(s, 64)\<close> belongs to the Go library; it is a parameter
  \<open>pf\<close> of the model, \<open>pf s = Some v\<close> when the returned error is \<^verbatim>\<open>nil\<close>.
\<close>

type_synonym ParseFloat = "string \<Rightarrow> float64 option"

fun dbToFloat64 :: "ParseFloat \<Rightarrow> cell \<Rightarrow> float64 \<times> bool" where
  "dbToFloat64 pf (CInt v) = (f64_of_int (sint v), True)"
| "dbToFloat64 pf (CFloat v) = (v, True)"
| "dbToFloat64 pf (CTime v) = (f64_of_int (sint v), True)"
| "dbToFloat64 pf (CBytes v) = (case pf v of None \<Rightarrow> (FNaN, False) | Some r \<Rightarrow> (r, True))"
| "dbToFloat64 pf (CString v) = (case pf v of None \<Rightarrow> (FNaN, False) | Some r \<Rightarrow> (r, True))"
| "dbToFloat64 pf CNil = (FNaN, True)"
| "dbToFloat64 pf (CBool v) = (FNaN, False)"

section \<open>Schema registry\<close>

datatype columnUsage = LABEL | COUNTER | GAUGE | GAUGE_MS

record ColumnMapping =
  usage :: columnUsage
  promMetricName :: string
  description :: string

text \<open>
  The two schema tables are Go maps from namespace to a map from column name to
  \<open>ColumnMapping\<close>. A Go map literal has no duplicate keys, and \<^verbatim>\<open>range\<close> visits
  its entries in an order the language leaves open; the tables are written here as
  association lists, the order of a list standing for the order of one iteration.
\<close>

definition metricKVMaps :: "(string \<times> (string \<times> ColumnMapping) list) list" where
  "metricKVMaps =
     [
      (''config'', [
        (''listen_backlog'', \<lparr>usage = COUNTER, promMetricName = '''',
          description = ''Maximum number of backlogged listen connections before further connection attempts are dropped''\<rparr>),
        (''max_client_conn'', \<lparr>usage = GAUGE, promMetricName = '''',
          description = ''Maximum number of client connections allowed''\<rparr>),
        (''default_pool_size'', \<lparr>usage = GAUGE, promMetricName = '''',
          description = ''The default for how many server connections to allow per user/database pair''\<rparr>),
        (''min_pool_size'', \<lparr>usage = GAUGE, promMetricName = '''',
          description = ''Mininum number of backends a pool will always retain.''\<rparr>),
        (''reserve_pool_size'', \<lparr>usage = GAUGE, promMetricName = '''',
          description = ''How many additional connections to allow to a pool once it's crossed it's maximum''\<rparr>),
        (''reserve_pool_timeout'', \<lparr>usage = GAUGE, promMetricName = ''reserve_pool_timeout_seconds'',
          description = ''If a client has not been serviced in this many seconds, pgbouncer enables use of additional connections from reserve pool.''\<rparr>),
        (''max_db_connections'', \<lparr>usage = GAUGE, promMetricName = '''',
          description = ''Server level maximum connections enforced for a given db, irregardless of pool limits''\<rparr>),
        (''max_user_connections'', \<lparr>usage = GAUGE, promMetricName = '''',
          description = ''Maximum number of connections a user can open irregardless of pool limits''\<rparr>),
        (''autodb_idle_timeout'', \<lparr>usage = GAUGE, promMetricName = ''autodb_idle_timeout_seconds'',
          description = ''Unused pools created via '*' are reclaimed after this interval''\<rparr>),
        (''server_reset_query_always'', \<lparr>usage = GAUGE, promMetricName = '''',
          description = ''Boolean indicating whether or not server_reset_query is enforced for all pooling modes, or just session''\<rparr>),
        (''server_check_delay'', \<lparr>usage = GAUGE, promMetricName = ''server_check_delay_seconds'',
          description = ''How long to keep released connections available for immediate re-use, without running sanity-check queries on it. If 0 then the query is ran always.''\<rparr>),
        (''query_timeout'', \<lparr>usage = GAUGE, promMetricName = ''query_timeout_seconds'',
          description = ''Maximum time that a query can run for before being cancelled.''\<rparr>),
        (''query_wait_timeout'', \<lparr>usage = GAUGE, promMetricName = ''query_wait_timeout_seconds'',
          description = ''Maximum time that a query can wait to be executed before being cancelled.''\<rparr>),
        (''client_idle_timeout'', \<lparr>usage = GAUGE, promMetricName = ''client_idle_timeout_seconds'',
          description = ''Client connections idling longer than this many seconds are closed''\<rparr>),
        (''client_login_timeout'', \<lparr>usage = GAUGE, promMetricName = ''client_login_timeout_seconds'',
          description = ''Maximum time in seconds for a client to either login, or be disconnected''\<rparr>),
        (''idle_transaction_timeout'', \<lparr>usage = GAUGE, promMetricName = ''idle_transaction_timeout_seconds'',
          description = ''If client has been in 'idle in transaction' state longer than this amount in seconds, it will be disconnected.''\<rparr>),
        (''server_lifetime'', \<lparr>usage = GAUGE, promMetricName = ''server_lifetime_seconds'',
          description = ''The pooler will close an unused server connection that has been connected longer than this many seconds''\<rparr>),
        (''server_idle_timeout'', \<lparr>usage = GAUGE, promMetricName = ''server_idle_timeout_seconds'',
          description = ''If a server connection has been idle more than this many seconds it will be dropped''\<rparr>),
        (''server_connect_timeout'', \<lparr>usage = GAUGE, promMetricName = ''server_connect_timeout_seconds'',
          description = ''Maximum time allowed for connecting and logging into a backend server''\<rparr>),
        (''server_login_retry'', \<lparr>usage = GAUGE, promMetricName = ''server_login_retry_seconds'',
          description = ''If connecting to a backend failed, this is the wait interval in seconds before retrying''\<rparr>),
        (''server_round_robin'', \<lparr>usage = GAUGE, promMetricName = '''',
          description = ''Boolean; if 1, pgbouncer uses backends in a round robin fashion.  If 0, it uses LIFO to minimize connectivity to backends''\<rparr>),
        (''suspend_timeout'', \<lparr>usage = GAUGE, promMetricName = ''suspend_timeout_seconds'',
          description = ''Timeout for how long pgbouncer waits for buffer flushes before killing connections during pgbouncer admin SHUTDOWN and SUSPEND invocations.''\<rparr>),
        (''disable_pqexec'', \<lparr>usage = COUNTER, promMetricName = '''',
          description = ''Boolean; 1 means pgbouncer enforce Simple Query Protocol; 0 means it allows multiple queries in a single packet''\<rparr>),
        (''dns_max_ttl'', \<lparr>usage = GAUGE, promMetricName = '''',
          description = ''Irregardless of DNS TTL, this is the TTL that pgbouncer enforces for dns lookups it does for backends''\<rparr>),
        (''dns_nxdomain_ttl'', \<lparr>usage = GAUGE, promMetricName = '''',
          description = ''Irregardless of DNS TTL, this is the period enforced for negative DNS answers''\<rparr>),
        (''dns_zone_check_period'', \<lparr>usage = GAUGE, promMetricName = ''dns_zone_check_period_seconds'',
          description = ''Period to check if zone serial has changed.''\<rparr>),
        (''max_packet_size'', \<lparr>usage = GAUGE, promMetricName = ''max_packet_size_bytes'',
          description = ''Maximum packet size for postgresql packets that pgbouncer will relay to backends''\<rparr>),
        (''pkt_buf'', \<lparr>usage = COUNTER, promMetricName = ''pkt_buf_bytes'',
          description = ''Internal buffer size for packets.  See docs''\<rparr>),
        (''sbuf_loopcnt'', \<lparr>usage = GAUGE, promMetricName = ''sbuf_loopcnt'',
          description = ''How many results to process for a given connection's packet results before switching to others to ensure fairness.  See docs.''\<rparr>),
        (''tcp_defer_accept'', \<lparr>usage = GAUGE, promMetricName = '''',
          description = ''Configurable for TCP_DEFER_ACCEPT''\<rparr>),
        (''tcp_socket_buffer'', \<lparr>usage = GAUGE, promMetricName = ''tcp_socket_buffer_bytes'',
          description = ''Configurable for tcp socket buffering; 0 is kernel managed''\<rparr>),
        (''tcpkeepalive'', \<lparr>usage = GAUGE, promMetricName = '''',
          description = ''Boolean; if 1, tcp keepalive is enabled w/ OS defaults.  If 0, disabled.''\<rparr>),
        (''tcp_keepcnt'', \<lparr>usage = GAUGE, promMetricName = '''',
          description = ''See TCP documentation for this field''\<rparr>),
        (''tcp_keepidle'', \<lparr>usage = GAUGE, promMetricName = '''',
          description = ''See TCP documentation for this field''\<rparr>),
        (''tcp_keepintvl'', \<lparr>usage = GAUGE, promMetricName = '''',
          description = ''See TCP documentation for this field''\<rparr>),
        (''verbose'', \<lparr>usage = GAUGE, promMetricName = '''',
          description = ''If log verbosity is increased.  Only relevant as a metric if log volume begins exceeding log consumption''\<rparr>),
        (''stats_period'', \<lparr>usage = GAUGE, promMetricName = ''stats_period_seconds'',
          description = ''Periodicity in seconds of pgbouncer recalculating internal stats.''\<rparr>),
        (''log_connections'', \<lparr>usage = GAUGE, promMetricName = '''',
          description = ''Whether connections are logged or not.''\<rparr>),
        (''log_disconnections'', \<lparr>usage = GAUGE, promMetricName = '''',
          description = ''Whether connection disconnects are logged.''\<rparr>),
        (''log_pooler_errors'', \<lparr>usage = GAUGE, promMetricName = '''',
          description = ''Whether pooler errors are logged or not''\<rparr>),
        (''application_name_add_host'', \<lparr>usage = GAUGE, promMetricName = '''',
          description = ''Whether pgbouncer add the client host address and port to the application name setting set on connection start or not''\<rparr>)])]"

definition metricRowMaps :: "(string \<times> (string \<times> ColumnMapping) list) list" where
  "metricRowMaps =
     [
      (''databases'', [
        (''name'', \<lparr>usage = LABEL, promMetricName = '''',
          description = ''''\<rparr>),
        (''host'', \<lparr>usage = LABEL, promMetricName = '''',
          description = ''''\<rparr>),
        (''port'', \<lparr>usage = LABEL, promMetricName = '''',
          description = ''''\<rparr>),
        (''database'', \<lparr>usage = LABEL, promMetricName = '''',
          description = ''''\<rparr>),
        (''force_user'', \<lparr>usage = LABEL, promMetricName = '''',
          description = ''''\<rparr>),
        (''pool_size'', \<lparr>usage = GAUGE, promMetricName = '''',
          description = ''Maximum number of connection per pool for backend connections''\<rparr>),
        (''reserve_pool'', \<lparr>usage = GAUGE, promMetricName = ''reserve_pool_size'',
          description = ''Number of extra connections by which the pool_size can be exceeded temporarily''\<rparr>),
        (''pool_mode'', \<lparr>usage = LABEL, promMetricName = '''',
          description = ''Nature of connection pooling''\<rparr>),
        (''max_connections'', \<lparr>usage = GAUGE, promMetricName = '''',
          description = ''Maximum number of client connections allowed''\<rparr>),
        (''current_connections'', \<lparr>usage = GAUGE, promMetricName = '''',
          description = ''Current number of client connections''\<rparr>),
        (''paused'', \<lparr>usage = GAUGE, promMetricName = '''',
          description = ''Boolean indicating whether a pgbouncer PAUSE is currently active for this database''\<rparr>),
        (''disabled'', \<lparr>usage = GAUGE, promMetricName = '''',
          description = ''Boolean indicating whether a pgbouncer DISABLE is currently active for this database''\<rparr>)]),
      (''lists'', [
        (''databases'', \<lparr>usage = GAUGE, promMetricName = '''',
          description = ''Count of databases''\<rparr>),
        (''users'', \<lparr>usage = GAUGE, promMetricName = '''',
          description = ''Count of users''\<rparr>),
        (''pools'', \<lparr>usage = GAUGE, promMetricName = '''',
          description = ''Count of pools''\<rparr>),
        (''free_clients'', \<lparr>usage = GAUGE, promMetricName = '''',
          description = ''Count of free clients''\<rparr>),
        (''used_clients'', \<lparr>usage = GAUGE, promMetricName = '''',
          description = ''Count of used clients''\<rparr>),
        (''login_clients'', \<lparr>usage = GAUGE, promMetricName = '''',
          description = ''Count of clients in login state''\<rparr>),
        (''free_servers'', \<lparr>usage = GAUGE, promMetricName = '''',
          description = ''Count of free servers''\<rparr>),
        (''used_servers'', \<lparr>usage = GAUGE, promMetricName = '''',
          description = ''Count of used servers''\<rparr>)]),
      (''pools'', [
        (''database'', \<lparr>usage = LABEL, promMetricName = '''',
          description = ''''\<rparr>),
        (''user'', \<lparr>usage = LABEL, promMetricName = '''',
          description = ''''\<rparr>),
        (''cl_active'', \<lparr>usage = GAUGE, promMetricName = '''',
          description = ''Client connections linked to server connection and able to process queries, shown as connection''\<rparr>),
        (''cl_waiting'', \<lparr>usage = GAUGE, promMetricName = '''',
          description = ''Client connections waiting on a server connection, shown as connection''\<rparr>),
        (''sv_active'', \<lparr>usage = GAUGE, promMetricName = '''',
          description = ''Server connections linked to a client connection, shown as connection''\<rparr>),
        (''sv_idle'', \<lparr>usage = GAUGE, promMetricName = '''',
          description = ''Server connections idle and ready for a client query, shown as connection''\<rparr>),
        (''sv_used'', \<lparr>usage = GAUGE, promMetricName = '''',
          description = ''Server connections idle more than server_check_delay, needing server_check_query, shown as connection''\<rparr>),
        (''sv_tested'', \<lparr>usage = GAUGE, promMetricName = '''',
          description = ''Server connections currently running either server_reset_query or server_check_query, shown as connection''\<rparr>),
        (''sv_login'', \<lparr>usage = GAUGE, promMetricName = '''',
          description = ''Server connections currently in the process of logging in, shown as connection''\<rparr>),
        (''maxwait'', \<lparr>usage = GAUGE, promMetricName = ''maxwait_seconds'',
          description = ''Age of oldest unserved client connection, shown as second''\<rparr>),
        (''pool_mode'', \<lparr>usage = LABEL, promMetricName = '''',
          description = ''''\<rparr>)]),
      (''stats'', [
        (''database'', \<lparr>usage = LABEL, promMetricName = '''',
          description = ''''\<rparr>),
        (''avg_query_count'', \<lparr>usage = GAUGE, promMetricName = ''avg_queries_per_second'',
          description = ''Average queries per second in last stat period''\<rparr>),
        (''avg_query'', \<lparr>usage = GAUGE_MS, promMetricName = ''avg_query_duration_microseconds'',
          description = ''The average query duration, shown as microsecond''\<rparr>),
        (''avg_query_time'', \<lparr>usage = GAUGE_MS, promMetricName = ''avg_query_time_microseconds'',
          description = ''Average query time in microseconds''\<rparr>),
        (''avg_recv'', \<lparr>usage = GAUGE, promMetricName = ''avg_data_recv_bytes_per_second'',
          description = ''Average received (from clients) bytes per second''\<rparr>),
        (''avg_req'', \<lparr>usage = GAUGE, promMetricName = '''',
          description = ''The average number of requests per second in last stat period, shown as request/second''\<rparr>),
        (''avg_sent'', \<lparr>usage = GAUGE, promMetricName = '''',
          description = ''Average sent (to clients) bytes per second''\<rparr>),
        (''avg_wait_time'', \<lparr>usage = GAUGE_MS, promMetricName = ''avg_wait_time_microseconds'',
          description = ''Time spent by clients waiting for a server in microseconds (average per second)''\<rparr>),
        (''avg_xact_count'', \<lparr>usage = GAUGE, promMetricName = '''',
          description = ''Average transactions per second in last stat period''\<rparr>),
        (''avg_xact_time'', \<lparr>usage = GAUGE_MS, promMetricName = ''avg_xact_time_microseconds'',
          description = ''Average transaction duration in microseconds''\<rparr>),
        (''bytes_received_per_second'', \<lparr>usage = GAUGE, promMetricName = ''bytes_received_per_second_total'',
          description = ''The total network traffic received, shown as byte/second''\<rparr>),
        (''bytes_sent_per_second'', \<lparr>usage = GAUGE, promMetricName = ''bytes_sent_per_second_total'',
          description = ''The total network traffic sent, shown as byte/second''\<rparr>),
        (''total_query_count'', \<lparr>usage = GAUGE, promMetricName = ''query_count_total'',
          description = ''Total number of SQL queries pooled''\<rparr>),
        (''total_query_time'', \<lparr>usage = GAUGE_MS, promMetricName = ''query_time_microseconds_total'',
          description = ''Total number of microseconds spent by pgbouncer when actively connected to PostgreSQL, executing queries''\<rparr>),
        (''total_received'', \<lparr>usage = GAUGE, promMetricName = ''received_bytes_total'',
          description = ''Total volume in bytes of network traffic received by pgbouncer, shown as bytes''\<rparr>),
        (''total_requests'', \<lparr>usage = GAUGE, promMetricName = ''requests_total'',
          description = ''Total number of SQL requests pooled by pgbouncer, shown as requests''\<rparr>),
        (''total_sent'', \<lparr>usage = GAUGE, promMetricName = ''sent_bytes_total'',
          description = ''Total volume in bytes of network traffic sent by pgbouncer, shown as bytes''\<rparr>),
        (''total_wait_time'', \<lparr>usage = GAUGE_MS, promMetricName = ''wait_time_microseconds_total'',
          description = ''Time spent by clients waiting for a server in microseconds''\<rparr>),
        (''total_xact_count'', \<lparr>usage = GAUGE, promMetricName = ''xact_count_total'',
          description = ''Total number of SQL transactions pooled''\<rparr>),
        (''total_xact_time'', \<lparr>usage = GAUGE_MS, promMetricName = ''xact_time_microseconds_total'',
          description = ''Total number of microseconds spent by pgbouncer when connected to PostgreSQL in a transaction, either idle in transaction or executing queries''\<rparr>)])]"

section \<open>Metric map builder\<close>

datatype ValueType = CounterValue | GaugeValue

text \<open>
  A \<^verbatim>\<open>prometheus.Desc\<close> as \<^verbatim>\<open>NewDesc\<close> builds it from a name, a help text and the
  variable label names (no constant labels are passed).
\<close>

record Desc =
  fqName :: string
  helpText :: string
  variableLabels :: "string list"

definition NewDesc :: "string \<Rightarrow> string \<Rightarrow> string list \<Rightarrow> Desc" where
  "NewDesc name h ls = \<lparr>fqName = name, helpText = h, variableLabels = ls\<rparr>"

record MetricMap =
  vtype :: ValueType
  desc :: Desc
  multiplier :: float64

text \<open>The two values a \<open>rowFunc\<close> field takes: the two converter functions.\<close>

datatype RowConverter = MetricRowConverter | MetricKVConverter

record MetricMapFromNamespace =
  namespace :: string
  columnMappings :: "string \<rightharpoonup> MetricMap"
  labels :: "string list"
  rowFunc :: RowConverter

text \<open>The first loop of \<^verbatim>\<open>convert\<close>: the names of the label columns.\<close>

definition convertLabels :: "(string \<times> ColumnMapping) list \<Rightarrow> string list" where
  "convertLabels mappings =
     map fst (filter (\<lambda>entry. usage (snd entry) = LABEL) mappings)"

text \<open>One round of the second loop: the descriptor, then the switch on the usage.\<close>

definition convertColumn ::
  "string \<Rightarrow> string \<Rightarrow> string list \<Rightarrow> (string \<rightharpoonup> MetricMap) \<Rightarrow> string \<times> ColumnMapping
    \<Rightarrow> (string \<rightharpoonup> MetricMap)" where
  "convertColumn metricNamespace ns ls thisMap entry =
     (let columnName = fst entry; columnMapping = snd entry;
          d = (if promMetricName columnMapping \<noteq> []
               then NewDesc (metricNamespace @ ''_'' @ ns @ ''_'' @ promMetricName columnMapping)
                      (description columnMapping) ls
               else NewDesc (metricNamespace @ ''_'' @ ns @ ''_'' @ columnName)
                      (description columnMapping) ls)
      in case usage columnMapping of
           COUNTER \<Rightarrow> thisMap(columnName \<mapsto> \<lparr>vtype = CounterValue, desc = d, multiplier = f64_one\<rparr>)
         | GAUGE \<Rightarrow> thisMap(columnName \<mapsto> \<lparr>vtype = GaugeValue, desc = d, multiplier = f64_one\<rparr>)
         | GAUGE_MS \<Rightarrow> thisMap(columnName \<mapsto> \<lparr>vtype = GaugeValue, desc = d, multiplier = f64_1e_6\<rparr>)
         | LABEL \<Rightarrow> thisMap)"

definition convert ::
  "string \<Rightarrow> string \<Rightarrow> (string \<times> ColumnMapping) list \<Rightarrow> RowConverter \<Rightarrow> MetricMapFromNamespace" where
  "convert metricNamespace ns mappings converter =
     (let ls = convertLabels mappings
      in \<lparr>namespace = ns,
          columnMappings = foldl (convertColumn metricNamespace ns ls) Map.empty mappings,
          labels = ls,
          rowFunc = converter\<rparr>)"

definition makeMetricMaps :: "string \<Rightarrow> MetricMapFromNamespace list" where
  "makeMetricMaps metricNamespace =
     map (\<lambda>(ns, mappings). convert metricNamespace ns mappings MetricRowConverter) metricRowMaps
     @ map (\<lambda>(ns, mappings). convert metricNamespace ns mappings MetricKVConverter) metricKVMaps"

section \<open>Row converters\<close>

text \<open>
  \<^verbatim>\<open>strconv.FormatInt(v, 10)\<close>: the decimal digits of the signed value, with a
  leading minus sign when it is negative.
\<close>

fun digits10 :: "nat \<Rightarrow> string" where
  "digits10 n = (if n < 10 then [''0123456789'' ! n]
                 else digits10 (n div 10) @ [''0123456789'' ! (n mod 10)])"

declare digits10.simps [simp del]

definition FormatInt :: "64 word \<Rightarrow> string" where
  "FormatInt v = (if sint v < 0 then CHR ''-'' # digits10 (nat (- sint v)) else digits10 (nat (sint v)))"

record rowResult =
  ColumnNames :: "string list"
  ColumnIdx :: "string \<rightharpoonup> int"
  ColumnData :: "cell list"

text \<open>
  The ways a converter stops without returning: a slice index out of range, and
  \<^verbatim>\<open>MustNewConstMetric\<close> called with a number of label values other than the
  number of variable labels of the descriptor.
\<close>

datatype panic =
    IndexOutOfRange int nat
  | InconsistentLabelCardinality string nat nat

text \<open>The error values the engine creates, by their message and its arguments.\<close>

datatype err =
    ParseColumnError string string cell
  | KVNotEnoughColumns string "cell list"
  | KVKeyNotString string "cell list"
  | KVValueError string string cell
  | QueryError string string
  | ColumnListError string string
  | RowScanError string string
  | RowsConsumeError string

text \<open>
  What is sent on the channel: constant metrics made by the converters, and the
  exporter's own gauges and counter, sent by \<open>Collect\<close>.
\<close>

datatype Metric =
    ConstMetric Desc ValueType float64 "string list"
  | GaugeMetric string float64
  | CounterMetric string float64

text \<open>\<^verbatim>\<open>ColumnData[i]\<close> with Go's bounds check, and a Go map read (a missing key gives 0).\<close>

definition indexData :: "cell list \<Rightarrow> int \<Rightarrow> panic + cell" where
  "indexData xs i =
     (if 0 \<le> i \<and> i < int (length xs) then Inr (xs ! nat i)
      else Inl (IndexOutOfRange i (length xs)))"

definition mapIndex :: "(string \<rightharpoonup> int) \<Rightarrow> string \<Rightarrow> int" where
  "mapIndex idx name = (case idx name of None \<Rightarrow> 0 | Some i \<Rightarrow> i)"

text \<open>
  \<^verbatim>\<open>prometheus.MustNewConstMetric\<close> belongs to the Prometheus client library:
  it panics when \<^verbatim>\<open>NewConstMetric\<close> returns an error, which it does when the
  number of label values differs from the number of variable labels. Label values
  are taken to be valid UTF-8 and descriptors to be free of construction errors.
\<close>

definition MustNewConstMetric :: "Desc \<Rightarrow> ValueType \<Rightarrow> float64 \<Rightarrow> string list \<Rightarrow> panic + Metric" where
  "MustNewConstMetric d vt v labelValues =
     (if length labelValues \<noteq> length (variableLabels d)
      then Inl (InconsistentLabelCardinality (fqName d) (length (variableLabels d)) (length labelValues))
      else Inr (ConstMetric d vt v labelValues))"

text \<open>The first loop of \<^verbatim>\<open>metricRowConverter\<close>: what one label cell appends.\<close>

fun appendLabel :: "string list \<Rightarrow> cell \<Rightarrow> string list" where
  "appendLabel labelValues CNil = labelValues @ ['''']"
| "appendLabel labelValues (CString v) = labelValues @ [v]"
| "appendLabel labelValues (CInt v) = labelValues @ [FormatInt v]"
| "appendLabel labelValues (CFloat v) = labelValues"
| "appendLabel labelValues (CTime v) = labelValues"
| "appendLabel labelValues (CBytes v) = labelValues"
| "appendLabel labelValues (CBool v) = labelValues"

fun collectLabels :: "rowResult \<Rightarrow> string list \<Rightarrow> string list \<Rightarrow> panic + string list" where
  "collectLabels result [] labelValues = Inr labelValues"
| "collectLabels result (name # names) labelValues =
     (case indexData (ColumnData result) (mapIndex (ColumnIdx result) name) of
        Inl p \<Rightarrow> Inl p
      | Inr val \<Rightarrow> collectLabels result names (appendLabel labelValues val))"

text \<open>
  The second loop, over \<^verbatim>\<open>result.ColumnNames\<close> from index \<open>idx\<close> on; \<open>ch\<close> holds the
  metrics sent so far. A panic leaves what was already sent on the channel.
\<close>

fun convertColumns ::
  "ParseFloat \<Rightarrow> MetricMapFromNamespace \<Rightarrow> rowResult \<Rightarrow> string list \<Rightarrow> nat \<Rightarrow> string list
    \<Rightarrow> Metric list \<Rightarrow> err list \<Rightarrow> Metric list \<times> (panic + err list)" where
  "convertColumns pf m result labelValues idx [] ch nonFatalErrors = (ch, Inr nonFatalErrors)"
| "convertColumns pf m result labelValues idx (columnName # rest) ch nonFatalErrors =
     (case columnMappings m columnName of
        None \<Rightarrow> convertColumns pf m result labelValues (Suc idx) rest ch nonFatalErrors
      | Some metricMapping \<Rightarrow>
          (case indexData (ColumnData result) (int idx) of
             Inl p \<Rightarrow> (ch, Inl p)
           | Inr c \<Rightarrow>
               (if \<not> snd (dbToFloat64 pf c)
                then convertColumns pf m result labelValues (Suc idx) rest ch
                       (nonFatalErrors @ [ParseColumnError (namespace m) columnName c])
                else (case MustNewConstMetric (desc metricMapping) (vtype metricMapping)
                             (f64_mul (fst (dbToFloat64 pf c)) (multiplier metricMapping)) labelValues of
                        Inl p \<Rightarrow> (ch, Inl p)
                      | Inr metric \<Rightarrow>
                          convertColumns pf m result labelValues (Suc idx) rest (ch @ [metric])
                            nonFatalErrors))))"

text \<open>
  A converter gives the metrics it sent and either a panic or its two results,
  the non-fatal errors and the fatal error (\<open>None\<close> for \<^verbatim>\<open>nil\<close>).
\<close>

type_synonym converted = "Metric list \<times> (panic + err list \<times> err option)"

definition metricRowConverter :: "ParseFloat \<Rightarrow> MetricMapFromNamespace \<Rightarrow> rowResult \<Rightarrow> converted" where
  "metricRowConverter pf m result =
     (case collectLabels result (labels m) [] of
        Inl p \<Rightarrow> ([], Inl p)
      | Inr labelValues \<Rightarrow>
          (case convertColumns pf m result labelValues 0 (ColumnNames result) [] [] of
             (ch, Inl p) \<Rightarrow> (ch, Inl p)
           | (ch, Inr nonFatalErrors) \<Rightarrow> (ch, Inr (nonFatalErrors, None))))"

definition metricKVConverter :: "ParseFloat \<Rightarrow> MetricMapFromNamespace \<Rightarrow> rowResult \<Rightarrow> converted" where
  "metricKVConverter pf m result =
     (if length (ColumnData result) < 2
      then ([], Inr ([], Some (KVNotEnoughColumns (namespace m) (ColumnData result))))
      else (case ColumnData result ! 0 of
              CString key \<Rightarrow>
                (case columnMappings m key of
                   Some metricMapping \<Rightarrow>
                     (if \<not> snd (dbToFloat64 pf (ColumnData result ! 1))
                      then ([], Inr ([KVValueError (namespace m) key (ColumnData result ! 1)], None))
                      else (case MustNewConstMetric (desc metricMapping) (vtype metricMapping)
                                   (f64_mul (fst (dbToFloat64 pf (ColumnData result ! 1)))
                                      (multiplier metricMapping)) [] of
                              Inl p \<Rightarrow> ([], Inl p)
                            | Inr metric \<Rightarrow> ([metric], Inr ([], None))))
                 | None \<Rightarrow> ([], Inr ([], None)))
            | _ \<Rightarrow> ([], Inr ([], Some (KVKeyNotString (namespace m) (ColumnData result))))))"

text \<open>The call \<^verbatim>\<open>m.rowFunc(m, &result, ch)\<close>.\<close>

definition callRowFunc :: "ParseFloat \<Rightarrow> MetricMapFromNamespace \<Rightarrow> rowResult \<Rightarrow> converted" where
  "callRowFunc pf m result =
     (case rowFunc m of
        MetricRowConverter \<Rightarrow> metricRowConverter pf m result
      | MetricKVConverter \<Rightarrow> metricKVConverter pf m result)"

section \<open>Scrape orchestrator\<close>

text \<open>
  The database is the collaborator behind \<^verbatim>\<open>db.Query\<close>. A query either fails or
  gives rows: the column list (or the error of \<^verbatim>\<open>rows.Columns\<close>), the rows that
  \<^verbatim>\<open>rows.Next\<close> yields, each with the outcome of \<^verbatim>\<open>rows.Scan\<close>, and the error
  that \<^verbatim>\<open>rows.Err\<close> reports once \<^verbatim>\<open>rows.Next\<close> has returned false.
\<close>

datatype scanned = ScanOK "cell list" | ScanFail string

record Rows =
  rowsColumns :: "string + string list"
  rowsNext :: "scanned list"
  rowsErr :: "string option"

type_synonym DB = "string \<Rightarrow> string + Rows"

text \<open>The lookup map from column name to index: a later duplicate name overwrites.\<close>

fun makeColumnIdx :: "nat \<Rightarrow> string list \<Rightarrow> (string \<rightharpoonup> int) \<Rightarrow> (string \<rightharpoonup> int)" where
  "makeColumnIdx i [] idx = idx"
| "makeColumnIdx i (n # ns) idx = makeColumnIdx (Suc i) ns (idx(n \<mapsto> int i))"

text \<open>
  \<^verbatim>\<open>rows.Scan(scanArgs...)\<close> stores one value in each of the \<open>n\<close> elements of
  \<^verbatim>\<open>ColumnData\<close>, which was made with the length of the column list; the driver
  hands over one value for each column.
\<close>

definition scanInto :: "nat \<Rightarrow> cell list \<Rightarrow> cell list" where
  "scanInto n cells = take n (cells @ replicate (n - length cells) CNil)"

text \<open>
  The loop over \<^verbatim>\<open>rows.Next()\<close>. Every successful scan overwrites all of
  \<^verbatim>\<open>ColumnData\<close>, so each round starts from the same \<open>result\<close>.
\<close>

fun queryRows ::
  "ParseFloat \<Rightarrow> MetricMapFromNamespace \<Rightarrow> rowResult \<Rightarrow> scanned list \<Rightarrow> string option
    \<Rightarrow> Metric list \<Rightarrow> err list \<Rightarrow> converted" where
  "queryRows pf m result [] rerr ch nonfatalErrors =
     (case rerr of
        None \<Rightarrow> (ch, Inr (nonfatalErrors, None))
      | Some e \<Rightarrow> (ch, Inr (nonfatalErrors @ [RowsConsumeError e], None)))"
| "queryRows pf m result (ScanFail e # rest) rerr ch nonfatalErrors =
     (ch, Inr ([], Some (RowScanError (namespace m) e)))"
| "queryRows pf m result (ScanOK cells # rest) rerr ch nonfatalErrors =
     (case callRowFunc pf m
             (result\<lparr>ColumnData := scanInto (length (ColumnNames result)) cells\<rparr>) of
        (sent, Inl p) \<Rightarrow> (ch @ sent, Inl p)
      | (sent, Inr (n, Some e)) \<Rightarrow> (ch @ sent, Inr (nonfatalErrors @ n, Some e))
      | (sent, Inr (n, None)) \<Rightarrow> queryRows pf m result rest rerr (ch @ sent) (nonfatalErrors @ n))"

definition queryString :: "MetricMapFromNamespace \<Rightarrow> string" where
  "queryString m = ''SHOW '' @ namespace m @ '';''"

definition Query :: "ParseFloat \<Rightarrow> MetricMapFromNamespace \<Rightarrow> DB \<Rightarrow> converted" where
  "Query pf m db =
     (case db (queryString m) of
        Inl e \<Rightarrow> ([], Inr ([], Some (QueryError (namespace m) e)))
      | Inr rows \<Rightarrow>
          (case rowsColumns rows of
             Inl e \<Rightarrow> ([], Inr ([], Some (ColumnListError (namespace m) e)))
           | Inr names \<Rightarrow>
               queryRows pf m
                 \<lparr>ColumnNames = names, ColumnIdx = makeColumnIdx 0 names Map.empty,
                  ColumnData = replicate (length names) CNil\<rparr>
                 (rowsNext rows) (rowsErr rows) [] []))"

text \<open>
  The exporter's own metrics. \<^verbatim>\<open>Set\<close>, \<^verbatim>\<open>Add\<close> and \<^verbatim>\<open>Inc\<close> work on the float64
  each of them holds.
\<close>

record Exporter =
  exporterNamespace :: string
  metricMap :: "MetricMapFromNamespace list"
  duration :: float64
  up :: float64
  error :: float64
  totalScrapes :: float64

text \<open>
  How a poll ends: \<open>scrape\<close> returns; or \<^verbatim>\<open>log.Fatal\<close> logs the error and calls
  \<^verbatim>\<open>os.Exit(1)\<close>, which ends the process without running deferred functions; or
  a panic unwinds, running them.
\<close>

datatype ending = Returns | Exits err | Panics panic

record poll =
  exporter :: Exporter
  sent :: "Metric list"
  queries :: "string list"
  ending :: ending

text \<open>The loop of \<open>scrape\<close> over \<^verbatim>\<open>e.metricMap\<close>; \<open>qs\<close> lists the queries issued so far.\<close>

fun scrapeMappings ::
  "ParseFloat \<Rightarrow> DB \<Rightarrow> MetricMapFromNamespace list \<Rightarrow> Exporter \<Rightarrow> Metric list \<Rightarrow> string list \<Rightarrow> poll" where
  "scrapeMappings pf db [] e ch qs = \<lparr>exporter = e, sent = ch, queries = qs, ending = Returns\<rparr>"
| "scrapeMappings pf db (mapping # rest) e ch qs =
     (case Query pf mapping db of
        (out, Inl p) \<Rightarrow>
          \<lparr>exporter = e, sent = ch @ out, queries = qs @ [queryString mapping], ending = Panics p\<rparr>
      | (out, Inr (nonfatal, Some fatal)) \<Rightarrow>
          \<lparr>exporter = e, sent = ch @ out, queries = qs @ [queryString mapping], ending = Exits fatal\<rparr>
      | (out, Inr (nonfatal, None)) \<Rightarrow>
          scrapeMappings pf db rest
            (e\<lparr>error := f64_add (error e) (f64_of_int (int (length nonfatal)))\<rparr>)
            (ch @ out) (qs @ [queryString mapping]))"

text \<open>
  \<open>scrape\<close>; \<open>elapsed\<close> is what \<^verbatim>\<open>time.Since(begun).Seconds()\<close> gives when the
  deferred function runs.
\<close>

definition scrape :: "ParseFloat \<Rightarrow> DB \<Rightarrow> float64 \<Rightarrow> Exporter \<Rightarrow> poll" where
  "scrape pf db elapsed e =
     (let e1 = e\<lparr>error := f64_zero, totalScrapes := f64_add (totalScrapes e) f64_one\<rparr>
      in case db ''SHOW STATS'' of
           Inl err \<Rightarrow>
             \<lparr>exporter = e1\<lparr>error := f64_one, up := f64_zero, duration := elapsed\<rparr>,
              sent = [], queries = [''SHOW STATS''], ending = Returns\<rparr>
         | Inr rows \<Rightarrow>
             (let r = scrapeMappings pf db (metricMap e1) (e1\<lparr>up := f64_one\<rparr>) [] [''SHOW STATS'']
              in case ending r of
                   Exits fatal \<Rightarrow> r
                 | _ \<Rightarrow> r\<lparr>exporter := (exporter r)\<lparr>duration := elapsed\<rparr>\<rparr>))"

text \<open>\<open>Collect\<close>: after \<open>scrape\<close> has returned, the four health metrics are sent.\<close>

definition healthMetrics :: "Exporter \<Rightarrow> Metric list" where
  "healthMetrics e =
     [GaugeMetric (exporterNamespace e @ ''_last_scrape_duration_seconds'') (duration e),
      GaugeMetric (exporterNamespace e @ ''_up'') (up e),
      CounterMetric (exporterNamespace e @ ''_scrapes_total'') (totalScrapes e),
      GaugeMetric (exporterNamespace e @ ''_last_scrape_error'') (error e)]"

definition Collect :: "ParseFloat \<Rightarrow> DB \<Rightarrow> float64 \<Rightarrow> Exporter \<Rightarrow> poll" where
  "Collect pf db elapsed e =
     (let r = scrape pf db elapsed e
      in case ending r of
           Returns \<Rightarrow> r\<lparr>sent := sent r @ healthMetrics (exporter r)\<rparr>
         | _ \<Rightarrow> r)"

text \<open>
  \<open>NewExporter\<close>, once the connector has been made: the compiled metric maps and
  the four health metrics, each starting at zero.
\<close>

definition NewExporter :: "string \<Rightarrow> Exporter" where
  "NewExporter ns =
     \<lparr>exporterNamespace = ns, metricMap = makeMetricMaps ns,
      duration = f64_zero, up = f64_zero, error = f64_zero, totalScrapes = f64_zero\<rparr>"

section \<open>Properties of the float64 model\<close>

lemma f64_val_pack:
  "t \<le> 971 \<Longrightarrow> f64_val (f64_pack s m t) =
     Some ((if s then - 1 else 1) *
           (if 0 \<le> t then real m * 2 ^ nat t else real m / 2 ^ nat (- t)))"
  by (simp add: f64_pack_def)

lemma round_f64_small:
  assumes "0 < m" "m < 2 ^ 53"
  shows "f64_val (round_f64 s m 0) = Some ((if s then - 1 else 1) * real m)"
proof -
  let ?L = "floorlog 2 m"
  have L53: "?L \<le> 53" using assms by (simp add: floorlog_le_iff)
  have "?L \<noteq> 0" using assms(1) by (simp add: floorlog_eq_zero_iff)
  then have L1: "1 \<le> ?L" by simp
  have t: "max (int ?L + 0 - 53) (- 1074) = int ?L - 53" using L1 by simp
  have le0: "int ?L - 53 \<le> 0" using L53 by simp
  have r: "round_f64 s m 0 = f64_pack s (m * 2 ^ nat (53 - int ?L)) (int ?L - 53)"
    using assms(1) le0 by (simp add: round_f64_def t Let_def)
  show ?thesis
  proof (cases "?L = 53")
    case True
    then show ?thesis by (simp add: r f64_val_pack)
  next
    case False
    with L53 have "int ?L - 53 < 0" by simp
    then show ?thesis
      using le0 by (simp add: r f64_val_pack nat_diff_distrib)
  qed
qed

lemma round_f64_2_53:
  "f64_val (round_f64 s (2 ^ 53) 0) = Some ((if s then - 1 else 1) * 2 ^ 53)"
  by (simp add: round_f64_def compute_floorlog rne_shift_def f64_pack_def Let_def)

text \<open>Converting an integer of magnitude at most \<open>2^53\<close> to float64 loses nothing.\<close>

lemma f64_of_int_exact:
  assumes "\<bar>i\<bar> \<le> 2 ^ 53"
  shows "f64_val (f64_of_int i) = Some (real_of_int i)"
proof -
  consider "i = 0" | "0 < nat \<bar>i\<bar>" "nat \<bar>i\<bar> < 2 ^ 53" | "nat \<bar>i\<bar> = 2 ^ 53"
    using assms by (cases "i = 0") (auto simp: nat_less_iff nat_eq_iff, linarith)
  then show ?thesis
  proof cases
    case 1
    then show ?thesis by (simp add: f64_of_int_def round_f64_def)
  next
    case 2
    have "real (nat \<bar>i\<bar>) = \<bar>real_of_int i\<bar>" by simp
    then show ?thesis
      using round_f64_small[OF 2, of "i < 0"] by (simp add: f64_of_int_def)
  next
    case 3
    then have "real (nat \<bar>i\<bar>) = 2 ^ 53" by simp
    then have "\<bar>real_of_int i\<bar> = 2 ^ 53" by simp
    then show ?thesis
      using round_f64_2_53[of "i < 0"] 3 by (auto simp add: f64_of_int_def)
  qed
qed

section \<open>Value coercion\<close>

text \<open>
  C3, as stated, at the integer cell \<open>2^53 + 1\<close> and at a timestamp cell that many
  seconds after the epoch: \<^verbatim>\<open>float64(v)\<close> is \<open>2^53\<close>, which is neither the cell's
  exact numeric value nor its seconds since the epoch.
\<close>

theorem dbToFloat64_int_not_exact:
  "f64_val (fst (dbToFloat64 (\<lambda>s. None) (CInt 9007199254740993)))
     \<noteq> Some (real_of_int (sint (9007199254740993 :: 64 word)))
   \<and> f64_val (fst (dbToFloat64 (\<lambda>s. None) (CTime 9007199254740993)))
     \<noteq> Some (real_of_int (sint (9007199254740993 :: 64 word)))"
  by (simp add: f64_of_int_def round_f64_def compute_floorlog rne_shift_def f64_pack_def Let_def)

text \<open>
  C3 (amended): for every cell value, \<open>dbToFloat64\<close> returns: an integer cell's
  value converted to float64 (the exact numeric value whenever its magnitude is at
  most \<open>2^53\<close>) or a floating-point cell's exact numeric value, with \<open>ok = True\<close>;
  a timestamp cell's seconds since the epoch, converted to float64 in the same
  way, with \<open>ok = True\<close>; for a textual or raw-byte cell, the base-10
  floating-point parse of the decoded text, which is what \<^verbatim>\<open>strconv.ParseFloat\<close>
  (the parameter \<open>pf\<close>) gives, with \<open>ok = True\<close> on parse success and
  \<open>(NaN, False)\<close> on parse failure; \<open>(NaN, True)\<close> for an absent cell; and
  \<open>(NaN, False)\<close> for any other representation.
\<close>

theorem dbToFloat64_coercion:
  "dbToFloat64 pf (CInt v) = (f64_of_int (sint v), True)
   \<and> (\<bar>sint v\<bar> \<le> 2 ^ 53 \<longrightarrow>
        f64_val (fst (dbToFloat64 pf (CInt v))) = Some (real_of_int (sint v)))
   \<and> dbToFloat64 pf (CFloat x) = (x, True)
   \<and> dbToFloat64 pf (CTime u) = (f64_of_int (sint u), True)
   \<and> (\<bar>sint u\<bar> \<le> 2 ^ 53 \<longrightarrow>
        f64_val (fst (dbToFloat64 pf (CTime u))) = Some (real_of_int (sint u)))
   \<and> (pf s = Some r \<longrightarrow>
        dbToFloat64 pf (CString s) = (r, True) \<and> dbToFloat64 pf (CBytes s) = (r, True))
   \<and> (pf s' = None \<longrightarrow>
        dbToFloat64 pf (CString s') = (FNaN, False) \<and> dbToFloat64 pf (CBytes s') = (FNaN, False))
   \<and> dbToFloat64 pf CNil = (FNaN, True)
   \<and> dbToFloat64 pf (CBool b) = (FNaN, False)"
  by (simp add: f64_of_int_exact)

theorem dbToFloat64_coercion_witness:
  "dbToFloat64 (\<lambda>s. if s = ''42.5'' then Some (FFin False 5981343255101440 (- 47)) else None)
       (CInt 7) = (FFin False 7881299347898368 (- 50), True)
   \<and> f64_val (FFin False 7881299347898368 (- 50)) = Some 7
   \<and> dbToFloat64 (\<lambda>s. if s = ''42.5'' then Some (FFin False 5981343255101440 (- 47)) else None)
       (CTime 7) = (FFin False 7881299347898368 (- 50), True)
   \<and> dbToFloat64 (\<lambda>s. if s = ''42.5'' then Some (FFin False 5981343255101440 (- 47)) else None)
       (CString ''42.5'') = (FFin False 5981343255101440 (- 47), True)
   \<and> f64_val (FFin False 5981343255101440 (- 47)) = Some 42.5
   \<and> dbToFloat64 (\<lambda>s. if s = ''42.5'' then Some (FFin False 5981343255101440 (- 47)) else None)
       (CBytes ''abc'') = (FNaN, False)"
  using dbToFloat64_coercion
    [of "\<lambda>s. if s = ''42.5'' then Some (FFin False 5981343255101440 (- 47)) else None"
        7 FNaN 7 "''42.5''" "FFin False 5981343255101440 (- 47)" "''abc''" True]
  by (simp add: f64_of_int_def round_f64_def compute_floorlog rne_shift_def f64_pack_def Let_def)

section \<open>Properties of the metric map builder\<close>

lemma convertColumn_labels:
  assumes "\<And>k mm. acc k = Some mm \<Longrightarrow> variableLabels (desc mm) = ls"
    and "convertColumn p ns ls acc entry k = Some mm"
  shows "variableLabels (desc mm) = ls"
  using assms
  by (auto simp: convertColumn_def NewDesc_def Let_def split: columnUsage.splits if_splits)

lemma foldl_convertColumn_labels:
  "(\<And>k mm. acc k = Some mm \<Longrightarrow> variableLabels (desc mm) = ls)
   \<Longrightarrow> foldl (convertColumn p ns ls) acc mp k = Some mm
   \<Longrightarrow> variableLabels (desc mm) = ls"
proof (induction mp arbitrary: acc)
  case Nil
  then show ?case by simp
next
  case (Cons entry mp)
  have step: "\<And>k mm. convertColumn p ns ls acc entry k = Some mm \<Longrightarrow> variableLabels (desc mm) = ls"
    using convertColumn_labels[of acc ls p ns entry] Cons.prems(1) by blast
  from Cons.prems(2) have "foldl (convertColumn p ns ls) (convertColumn p ns ls acc entry) mp k = Some mm"
    by simp
  with step show ?case by (rule Cons.IH)
qed

lemma convert_variableLabels:
  "columnMappings (convert p ns mp c) k = Some mm \<Longrightarrow> variableLabels (desc mm) = convertLabels mp"
  using foldl_convertColumn_labels[of Map.empty "convertLabels mp" p ns mp k mm]
  by (simp add: convert_def Let_def)

lemma convertColumn_other:
  "c \<noteq> fst entry \<Longrightarrow> convertColumn p ns ls acc entry c = acc c"
  by (simp add: convertColumn_def Let_def split: columnUsage.splits)

lemma foldl_convertColumn_other:
  "c \<notin> fst ` set mp \<Longrightarrow> foldl (convertColumn p ns ls) acc mp c = acc c"
  by (induction mp arbitrary: acc) (simp_all add: convertColumn_other)

lemma convertColumn_this:
  "usage cm \<noteq> LABEL \<Longrightarrow> convertColumn p ns ls acc (c, cm) c =
       Some \<lparr>vtype = (if usage cm = COUNTER then CounterValue else GaugeValue),
             desc = \<lparr>fqName = p @ ''_'' @ ns @ ''_'' @ (if promMetricName cm \<noteq> [] then promMetricName cm else c),
                     helpText = description cm, variableLabels = ls\<rparr>,
             multiplier = (if usage cm = GAUGE_MS then f64_1e_6 else f64_one)\<rparr>"
  by (cases "usage cm") (simp_all add: convertColumn_def NewDesc_def Let_def)

lemma foldl_convertColumn_lookup:
  "distinct (map fst mp) \<Longrightarrow> (c, cm) \<in> set mp \<Longrightarrow> usage cm \<noteq> LABEL
   \<Longrightarrow> foldl (convertColumn p ns ls) acc mp c =
       Some \<lparr>vtype = (if usage cm = COUNTER then CounterValue else GaugeValue),
             desc = \<lparr>fqName = p @ ''_'' @ ns @ ''_'' @ (if promMetricName cm \<noteq> [] then promMetricName cm else c),
                     helpText = description cm, variableLabels = ls\<rparr>,
             multiplier = (if usage cm = GAUGE_MS then f64_1e_6 else f64_one)\<rparr>"
proof (induction mp arbitrary: acc)
  case Nil
  then show ?case by simp
next
  case (Cons entry mp)
  show ?case
  proof (cases "entry = (c, cm)")
    case True
    then have "c \<notin> fst ` set mp" using Cons.prems(1) by auto
    then have "foldl (convertColumn p ns ls) (convertColumn p ns ls acc (c, cm)) mp c
                 = convertColumn p ns ls acc (c, cm) c"
      by (rule foldl_convertColumn_other)
    then show ?thesis
      using True convertColumn_this[OF Cons.prems(3), of p ns ls acc c] by simp
  next
    case False
    then have "(c, cm) \<in> set mp" "distinct (map fst mp)" using Cons.prems by auto
    then have "foldl (convertColumn p ns ls) (convertColumn p ns ls acc entry) mp c =
       Some \<lparr>vtype = (if usage cm = COUNTER then CounterValue else GaugeValue),
             desc = \<lparr>fqName = p @ ''_'' @ ns @ ''_'' @ (if promMetricName cm \<noteq> [] then promMetricName cm else c),
                     helpText = description cm, variableLabels = ls\<rparr>,
             multiplier = (if usage cm = GAUGE_MS then f64_1e_6 else f64_one)\<rparr>"
      using Cons.IH[of "convertColumn p ns ls acc entry"] Cons.prems(3) by blast
    then show ?thesis by simp
  qed
qed

lemma kv_tables_no_labels:
  "\<forall>entry \<in> set metricKVMaps. convertLabels (snd entry) = []"
  by (simp add: metricKVMaps_def convertLabels_def)

lemma tables_distinct:
  "\<forall>entry \<in> set (metricRowMaps @ metricKVMaps). distinct (map fst (snd entry))"
  by (simp add: metricKVMaps_def metricRowMaps_def)

lemma compiled_kv_no_labels:
  assumes "m \<in> set (makeMetricMaps p)" "rowFunc m = MetricKVConverter"
    and "columnMappings m key = Some mm"
  shows "variableLabels (desc mm) = []"
proof -
  from assms(1,2) obtain ns mp where e: "(ns, mp) \<in> set metricKVMaps"
    and m: "m = convert p ns mp MetricKVConverter"
    by (auto simp: makeMetricMaps_def convert_def Let_def)
  have "convertLabels mp = []" using kv_tables_no_labels e by fastforce
  then show ?thesis using convert_variableLabels[of p ns mp MetricKVConverter key mm] assms(3) m
    by simp
qed


text \<open>
  C6: for every namespace in either schema table and each of its non-label
  columns, the builder produces a namespace map whose entry for the column has a
  descriptor named prefix, namespace and the exported-name override when present
  or else the column name, joined by underscores, carrying the namespace's
  label-name list; its value kind is counter for \<open>COUNTER\<close> and gauge for \<open>GAUGE\<close>
  and \<open>GAUGE_MS\<close>; its scale factor is the float64 \<open>1e-6\<close> for \<open>GAUGE_MS\<close> and
  \<open>1\<close> otherwise, so that the source value 2500000 times the scale factor is the
  float64 2.5.
\<close>

theorem makeMetricMaps_descriptors:
  assumes "(ns, mappings) \<in> set (metricRowMaps @ metricKVMaps)"
    and "(columnName, cm) \<in> set mappings"
    and "usage cm \<noteq> LABEL"
  shows "(\<exists>m \<in> set (makeMetricMaps metricNamespace).
            namespace m = ns \<and> labels m = convertLabels mappings \<and>
            columnMappings m columnName =
              Some \<lparr>vtype = (if usage cm = COUNTER then CounterValue else GaugeValue),
                    desc = \<lparr>fqName = metricNamespace @ ''_'' @ ns @ ''_'' @
                                      (if promMetricName cm \<noteq> [] then promMetricName cm else columnName),
                            helpText = description cm,
                            variableLabels = labels m\<rparr>,
                    multiplier = (if usage cm = GAUGE_MS then f64_1e_6 else f64_one)\<rparr>)
         \<and> f64_val f64_one = Some 1
         \<and> (\<exists>x. f64_val f64_1e_6 = Some x \<and> \<bar>x - 1 / 10 ^ 6\<bar> \<le> 1 / 2 ^ 73)
         \<and> f64_val (f64_mul (fst (dbToFloat64 pf (CInt 2500000))) f64_1e_6) = Some 2.5"
proof -
  have d: "distinct (map fst mappings)" using tables_distinct assms(1) by fastforce
  let ?m = "convert metricNamespace ns mappings
              (if (ns, mappings) \<in> set metricRowMaps then MetricRowConverter else MetricKVConverter)"
  have mem: "?m \<in> set (makeMetricMaps metricNamespace)"
    using assms(1) by (auto simp: makeMetricMaps_def intro!: image_eqI[where x="(ns, mappings)"])
  have look: "columnMappings ?m columnName =
              Some \<lparr>vtype = (if usage cm = COUNTER then CounterValue else GaugeValue),
                    desc = \<lparr>fqName = metricNamespace @ ''_'' @ ns @ ''_'' @
                                      (if promMetricName cm \<noteq> [] then promMetricName cm else columnName),
                            helpText = description cm,
                            variableLabels = labels ?m\<rparr>,
                    multiplier = (if usage cm = GAUGE_MS then f64_1e_6 else f64_one)\<rparr>"
    using foldl_convertColumn_lookup[OF d assms(2,3), of metricNamespace ns "convertLabels mappings" Map.empty]
    by (simp add: convert_def Let_def)
  have one: "f64_val f64_one = Some 1" by (simp add: f64_one_def)
  have v: "f64_val f64_1e_6 = Some (4722366482869645 / 2 ^ 72)"
    by (simp add: f64_1e_6_def)
  have b: "\<bar>(4722366482869645 / 2 ^ 72 :: real) - 1 / 10 ^ 6\<bar> \<le> 1 / 2 ^ 73"
    by (simp add: abs_le_iff)
  have micro: "\<exists>x. f64_val f64_1e_6 = Some x \<and> \<bar>x - 1 / 10 ^ 6\<bar> \<le> 1 / 2 ^ 73"
    using v b by blast
  have ex: "f64_val (f64_mul (fst (dbToFloat64 pf (CInt 2500000))) f64_1e_6) = Some 2.5"
    by (simp add: f64_of_int_def round_f64_def f64_1e_6_def compute_floorlog rne_shift_def f64_pack_def Let_def)
  have "namespace ?m = ns" "labels ?m = convertLabels mappings" by (simp_all add: convert_def Let_def)
  with mem look one micro ex show ?thesis by blast
qed


lemma stats_entry:
  "(''stats'', snd (metricRowMaps ! 3)) \<in> set (metricRowMaps @ metricKVMaps)"
  by (simp add: metricRowMaps_def)

lemma avg_query_entry:
  "(''avg_query'', \<lparr>usage = GAUGE_MS, promMetricName = ''avg_query_duration_microseconds'',
       description = ''The average query duration, shown as microsecond''\<rparr>)
     \<in> set (snd (metricRowMaps ! 3))"
  by (simp add: metricRowMaps_def)

lemma stats_labels: "convertLabels (snd (metricRowMaps ! 3)) = [''database'']"
  by (simp add: metricRowMaps_def convertLabels_def)

theorem makeMetricMaps_descriptors_witness:
  "\<exists>m \<in> set (makeMetricMaps ''pgbouncer'').
      namespace m = ''stats'' \<and> labels m = [''database''] \<and>
      columnMappings m ''avg_query'' =
        Some \<lparr>vtype = GaugeValue,
              desc = \<lparr>fqName = ''pgbouncer_stats_avg_query_duration_microseconds'',
                      helpText = ''The average query duration, shown as microsecond'',
                      variableLabels = [''database'']\<rparr>,
              multiplier = f64_1e_6\<rparr>"
proof -
  have "\<exists>m \<in> set (makeMetricMaps ''pgbouncer'').
      namespace m = ''stats'' \<and> labels m = convertLabels (snd (metricRowMaps ! 3)) \<and>
      columnMappings m ''avg_query'' =
        Some \<lparr>vtype = GaugeValue,
              desc = \<lparr>fqName = ''pgbouncer_stats_avg_query_duration_microseconds'',
                      helpText = ''The average query duration, shown as microsecond'',
                      variableLabels = labels m\<rparr>,
              multiplier = f64_1e_6\<rparr>"
    using makeMetricMaps_descriptors[OF stats_entry avg_query_entry, of "''pgbouncer''" "\<lambda>s. None"]
    by simp
  then show ?thesis by (auto simp: stats_labels)
qed

section \<open>Key-value converter\<close>

text \<open>
  C5: for every single-row input and every key-value namespace map that the
  builder compiles, \<open>metricKVConverter\<close> returns a fatal error, and sends nothing,
  exactly when the row has fewer than two columns or its first column is not a
  text cell; when the text key is not in the compiled map the row is ignored with
  no error and nothing sent; when the key is mapped, a coercion failure of the
  second column gives exactly one non-fatal error and nothing sent, and a
  coercion success sends exactly one observation, the coerced value times the
  multiplier, with no label values.
\<close>

theorem metricKVConverter_cases:
  assumes "m \<in> set (makeMetricMaps metricNamespace)" and "rowFunc m = MetricKVConverter"
  shows "((\<exists>n e. snd (metricKVConverter pf m r0) = Inr (n, Some e)) \<longleftrightarrow>
            (length (ColumnData r0) < 2 \<or> (\<forall>key. ColumnData r0 ! 0 \<noteq> CString key)))
       \<and> (length (ColumnData r1) < 2 \<or> (\<forall>key. ColumnData r1 ! 0 \<noteq> CString key) \<longrightarrow>
            (\<exists>e. metricKVConverter pf m r1 = ([], Inr ([], Some e))))
       \<and> (2 \<le> length (ColumnData r2) \<and> ColumnData r2 ! 0 = CString key2
            \<and> columnMappings m key2 = None \<longrightarrow>
            metricKVConverter pf m r2 = ([], Inr ([], None)))
       \<and> (2 \<le> length (ColumnData r3) \<and> ColumnData r3 ! 0 = CString key3
            \<and> columnMappings m key3 = Some mm3 \<and> \<not> snd (dbToFloat64 pf (ColumnData r3 ! 1)) \<longrightarrow>
            metricKVConverter pf m r3 =
              ([], Inr ([KVValueError (namespace m) key3 (ColumnData r3 ! 1)], None)))
       \<and> (2 \<le> length (ColumnData r4) \<and> ColumnData r4 ! 0 = CString key4
            \<and> columnMappings m key4 = Some mm4 \<and> snd (dbToFloat64 pf (ColumnData r4 ! 1)) \<longrightarrow>
            metricKVConverter pf m r4 =
              ([ConstMetric (desc mm4) (vtype mm4)
                  (f64_mul (fst (dbToFloat64 pf (ColumnData r4 ! 1))) (multiplier mm4)) []],
               Inr ([], None)))"
proof -
  have nl: "\<And>key mm. columnMappings m key = Some mm \<Longrightarrow> variableLabels (desc mm) = []"
    using compiled_kv_no_labels[OF assms] by blast
  have c0: "(\<exists>n e. snd (metricKVConverter pf m r0) = Inr (n, Some e)) \<longleftrightarrow>
            (length (ColumnData r0) < 2 \<or> (\<forall>key. ColumnData r0 ! 0 \<noteq> CString key))"
    using nl
    by (auto simp: metricKVConverter_def MustNewConstMetric_def
             split: cell.splits option.splits)
  have c1: "length (ColumnData r1) < 2 \<or> (\<forall>key. ColumnData r1 ! 0 \<noteq> CString key) \<longrightarrow>
            (\<exists>e. metricKVConverter pf m r1 = ([], Inr ([], Some e)))"
    by (auto simp: metricKVConverter_def split: cell.splits)
  have c2: "2 \<le> length (ColumnData r2) \<and> ColumnData r2 ! 0 = CString key2
            \<and> columnMappings m key2 = None \<longrightarrow>
            metricKVConverter pf m r2 = ([], Inr ([], None))"
    by (simp add: metricKVConverter_def)
  have c3: "2 \<le> length (ColumnData r3) \<and> ColumnData r3 ! 0 = CString key3
            \<and> columnMappings m key3 = Some mm3 \<and> \<not> snd (dbToFloat64 pf (ColumnData r3 ! 1)) \<longrightarrow>
            metricKVConverter pf m r3 =
              ([], Inr ([KVValueError (namespace m) key3 (ColumnData r3 ! 1)], None))"
    by (simp add: metricKVConverter_def)
  have c4: "2 \<le> length (ColumnData r4) \<and> ColumnData r4 ! 0 = CString key4
            \<and> columnMappings m key4 = Some mm4 \<and> snd (dbToFloat64 pf (ColumnData r4 ! 1)) \<longrightarrow>
            metricKVConverter pf m r4 =
              ([ConstMetric (desc mm4) (vtype mm4)
                  (f64_mul (fst (dbToFloat64 pf (ColumnData r4 ! 1))) (multiplier mm4)) []],
               Inr ([], None))"
    using nl[of key4 mm4] by (auto simp: metricKVConverter_def MustNewConstMetric_def)
  from c0 c1 c2 c3 c4 show ?thesis by blast
qed

lemma config_map_member:
  "convert p ''config'' (snd (metricKVMaps ! 0)) MetricKVConverter \<in> set (makeMetricMaps p)"
  by (simp add: makeMetricMaps_def metricKVMaps_def)

lemma config_max_client_conn:
  "columnMappings (convert p ''config'' (snd (metricKVMaps ! 0)) MetricKVConverter) ''max_client_conn'' =
     Some \<lparr>vtype = GaugeValue,
           desc = \<lparr>fqName = p @ ''_config_max_client_conn'',
                   helpText = ''Maximum number of client connections allowed'',
                   variableLabels = []\<rparr>,
           multiplier = f64_one\<rparr>"
proof -
  have d: "distinct (map fst (snd (metricKVMaps ! 0)))"
    by (simp add: metricKVMaps_def)
  have e: "(''max_client_conn'', \<lparr>usage = GAUGE, promMetricName = [],
              description = ''Maximum number of client connections allowed''\<rparr>)
            \<in> set (snd (metricKVMaps ! 0))"
    by (simp add: metricKVMaps_def)
  have l: "convertLabels (snd (metricKVMaps ! 0)) = []"
    by (simp add: metricKVMaps_def convertLabels_def)
  show ?thesis
    using foldl_convertColumn_lookup[OF d e, of p "''config''" "[]" Map.empty]
    by (simp add: convert_def Let_def l)
qed

lemma config_unknown_key:
  "columnMappings (convert p ''config'' (snd (metricKVMaps ! 0)) MetricKVConverter) ''unknown_key'' = None"
proof -
  have "''unknown_key'' \<notin> fst ` set (snd (metricKVMaps ! 0))"
    by (simp add: metricKVMaps_def)
  then show ?thesis
    by (simp add: convert_def Let_def foldl_convertColumn_other)
qed

theorem metricKVConverter_cases_witness:
  "metricKVConverter (\<lambda>s. if s = ''100'' then Some (FFin False 7036874417766400 (- 46)) else None)
     (convert ''pgbouncer'' ''config'' (snd (metricKVMaps ! 0)) MetricKVConverter)
     \<lparr>ColumnNames = [''key'', ''value''], ColumnIdx = [''key'' \<mapsto> 0, ''value'' \<mapsto> 1],
      ColumnData = [CString ''max_client_conn'', CString ''100'']\<rparr>
   = ([ConstMetric \<lparr>fqName = ''pgbouncer_config_max_client_conn'',
                     helpText = ''Maximum number of client connections allowed'',
                     variableLabels = []\<rparr>
         GaugeValue (FFin False 7036874417766400 (- 46)) []], Inr ([], None))
   \<and> f64_val (FFin False 7036874417766400 (- 46)) = Some 100
   \<and> metricKVConverter (\<lambda>s. if s = ''100'' then Some (FFin False 7036874417766400 (- 46)) else None)
     (convert ''pgbouncer'' ''config'' (snd (metricKVMaps ! 0)) MetricKVConverter)
     \<lparr>ColumnNames = [''key'', ''value''], ColumnIdx = [''key'' \<mapsto> 0, ''value'' \<mapsto> 1],
      ColumnData = [CString ''unknown_key'', CString ''5'']\<rparr>
   = ([], Inr ([], None))
   \<and> (\<exists>e. metricKVConverter (\<lambda>s. if s = ''100'' then Some (FFin False 7036874417766400 (- 46)) else None)
     (convert ''pgbouncer'' ''config'' (snd (metricKVMaps ! 0)) MetricKVConverter)
     \<lparr>ColumnNames = [''key''], ColumnIdx = [''key'' \<mapsto> 0],
      ColumnData = [CString ''max_client_conn'']\<rparr>
   = ([], Inr ([], Some e)))
   \<and> metricKVConverter (\<lambda>s. if s = ''100'' then Some (FFin False 7036874417766400 (- 46)) else None)
     (convert ''pgbouncer'' ''config'' (snd (metricKVMaps ! 0)) MetricKVConverter)
     \<lparr>ColumnNames = [''key'', ''value''], ColumnIdx = [''key'' \<mapsto> 0, ''value'' \<mapsto> 1],
      ColumnData = [CString ''max_client_conn'', CString ''abc'']\<rparr>
   = ([], Inr ([KVValueError ''config'' ''max_client_conn'' (CString ''abc'')], None))"
proof -
  have ns: "namespace (convert ''pgbouncer'' ''config'' (snd (metricKVMaps ! 0)) MetricKVConverter) = ''config''"
    by (simp add: convert_def Let_def)
  have rf: "rowFunc (convert ''pgbouncer'' ''config'' (snd (metricKVMaps ! 0)) MetricKVConverter) = MetricKVConverter"
    by (simp add: convert_def Let_def)
  have mulv: "f64_mul (FFin False 7036874417766400 (- 46)) f64_one = FFin False 7036874417766400 (- 46)"
    by (simp add: f64_one_def round_f64_def compute_floorlog rne_shift_def f64_pack_def Let_def)
  show ?thesis
    using metricKVConverter_cases[OF config_map_member rf,
      of "\<lambda>s. if s = ''100'' then Some (FFin False 7036874417766400 (- 46)) else None"
         "\<lparr>ColumnNames = [''key''], ColumnIdx = [''key'' \<mapsto> 0], ColumnData = [CString ''max_client_conn'']\<rparr>"
         "\<lparr>ColumnNames = [''key''], ColumnIdx = [''key'' \<mapsto> 0], ColumnData = [CString ''max_client_conn'']\<rparr>"
         "\<lparr>ColumnNames = [''key'', ''value''], ColumnIdx = [''key'' \<mapsto> 0, ''value'' \<mapsto> 1],
           ColumnData = [CString ''unknown_key'', CString ''5'']\<rparr>"
         "''unknown_key''"
         "\<lparr>ColumnNames = [''key'', ''value''], ColumnIdx = [''key'' \<mapsto> 0, ''value'' \<mapsto> 1],
           ColumnData = [CString ''max_client_conn'', CString ''abc'']\<rparr>"
         "''max_client_conn''"
         "\<lparr>vtype = GaugeValue,
           desc = \<lparr>fqName = ''pgbouncer_config_max_client_conn'',
                   helpText = ''Maximum number of client connections allowed'',
                   variableLabels = []\<rparr>,
           multiplier = f64_one\<rparr>"
         "\<lparr>ColumnNames = [''key'', ''value''], ColumnIdx = [''key'' \<mapsto> 0, ''value'' \<mapsto> 1],
           ColumnData = [CString ''max_client_conn'', CString ''100'']\<rparr>"
         "''max_client_conn''"
         "\<lparr>vtype = GaugeValue,
           desc = \<lparr>fqName = ''pgbouncer_config_max_client_conn'',
                   helpText = ''Maximum number of client connections allowed'',
                   variableLabels = []\<rparr>,
           multiplier = f64_one\<rparr>"]
    by (simp add: ns mulv config_unknown_key config_max_client_conn[of "''pgbouncer''", simplified])
qed

section \<open>The per-namespace query loop\<close>

text \<open>
  C10: in the loop of \<open>Query\<close> over the rows, once the earlier rows have been
  converted without a fatal error, a row-scan failure returns a fatal error
  together with an empty non-fatal-error list, discarding the non-fatal errors
  accumulated from the earlier rows; a fatal error reported by the row converter
  is returned together with the non-fatal errors accumulated so far.
\<close>

lemma queryRows_append:
  "queryRows pf m result (pre @ post) rerr ch nonfatal =
     (case queryRows pf m result pre None ch nonfatal of
        (ch', Inr (nonfatal', None)) \<Rightarrow> queryRows pf m result post rerr ch' nonfatal'
      | (ch', Inr (nonfatal', Some e)) \<Rightarrow> (ch', Inr (nonfatal', Some e))
      | (ch', Inl p) \<Rightarrow> (ch', Inl p))"
proof (induction pre arbitrary: ch nonfatal)
  case Nil
  then show ?case by simp
next
  case (Cons item pre)
  show ?case
  proof (cases item)
    case (ScanFail e)
    then show ?thesis by simp
  next
    case (ScanOK cells)
    then show ?thesis
      by (simp add: Cons.IH split: prod.splits sum.splits option.splits)
  qed
qed

theorem Query_fatal_paths:
  assumes "db (queryString m) = Inr rows" and "rowsColumns rows = Inr names"
    and "queryRows pf m
           \<lparr>ColumnNames = names, ColumnIdx = makeColumnIdx 0 names Map.empty,
            ColumnData = replicate (length names) CNil\<rparr>
           pre None [] [] = (ch, Inr (nonfatal, None))"
  shows "(rowsNext rows = pre @ ScanFail e # post \<longrightarrow>
            Query pf m db = (ch, Inr ([], Some (RowScanError (namespace m) e))))
       \<and> (rowsNext rows = pre @ ScanOK cells # post
            \<and> callRowFunc pf m
                 \<lparr>ColumnNames = names, ColumnIdx = makeColumnIdx 0 names Map.empty,
                  ColumnData = scanInto (length names) cells\<rparr> = (out, Inr (n, Some fatal)) \<longrightarrow>
            Query pf m db = (ch @ out, Inr (nonfatal @ n, Some fatal)))"
  using assms by (simp add: Query_def queryRows_append)

lemma config_row_value_error:
  "callRowFunc (\<lambda>s. None) (convert ''pgbouncer'' ''config'' (snd (metricKVMaps ! 0)) MetricKVConverter)
     \<lparr>ColumnNames = names, ColumnIdx = idx,
      ColumnData = [CString ''max_client_conn'', CString ''abc'']\<rparr>
   = ([], Inr ([KVValueError ''config'' ''max_client_conn'' (CString ''abc'')], None))"
proof -
  have ns: "namespace (convert ''pgbouncer'' ''config'' (snd (metricKVMaps ! 0)) MetricKVConverter) = ''config''"
    by (simp add: convert_def Let_def)
  have rf: "rowFunc (convert ''pgbouncer'' ''config'' (snd (metricKVMaps ! 0)) MetricKVConverter) = MetricKVConverter"
    by (simp add: convert_def Let_def)
  show ?thesis
    by (simp add: callRowFunc_def rf metricKVConverter_def ns
          config_max_client_conn[of "''pgbouncer''", simplified])
qed

lemma config_row_key_not_string:
  "callRowFunc (\<lambda>s. None) (convert ''pgbouncer'' ''config'' (snd (metricKVMaps ! 0)) MetricKVConverter)
     \<lparr>ColumnNames = names, ColumnIdx = idx, ColumnData = [CNil, CString ''5'']\<rparr>
   = ([], Inr ([], Some (KVKeyNotString ''config'' [CNil, CString ''5''])))"
proof -
  have ns: "namespace (convert ''pgbouncer'' ''config'' (snd (metricKVMaps ! 0)) MetricKVConverter) = ''config''"
    by (simp add: convert_def Let_def)
  have rf: "rowFunc (convert ''pgbouncer'' ''config'' (snd (metricKVMaps ! 0)) MetricKVConverter) = MetricKVConverter"
    by (simp add: convert_def Let_def)
  show ?thesis
    by (simp add: callRowFunc_def rf metricKVConverter_def ns)
qed

theorem Query_fatal_paths_witness:
  "Query (\<lambda>s. None) (convert ''pgbouncer'' ''config'' (snd (metricKVMaps ! 0)) MetricKVConverter)
     (\<lambda>q. if q = ''SHOW config;''
          then Inr \<lparr>rowsColumns = Inr [''key'', ''value''],
                    rowsNext = [ScanOK [CString ''max_client_conn'', CString ''abc''],
                                ScanFail ''bad connection'',
                                ScanOK [CString ''max_client_conn'', CString ''abc'']],
                    rowsErr = None\<rparr>
          else Inl ''unknown command'')
   = ([], Inr ([], Some (RowScanError ''config'' ''bad connection'')))
   \<and> Query (\<lambda>s. None) (convert ''pgbouncer'' ''config'' (snd (metricKVMaps ! 0)) MetricKVConverter)
     (\<lambda>q. if q = ''SHOW config;''
          then Inr \<lparr>rowsColumns = Inr [''key'', ''value''],
                    rowsNext = [ScanOK [CString ''max_client_conn'', CString ''abc''],
                                ScanOK [CNil, CString ''5''],
                                ScanOK [CString ''max_client_conn'', CString ''abc'']],
                    rowsErr = None\<rparr>
          else Inl ''unknown command'')
   = ([], Inr ([KVValueError ''config'' ''max_client_conn'' (CString ''abc'')],
               Some (KVKeyNotString ''config'' [CNil, CString ''5''])))"
proof -
  let ?m = "convert ''pgbouncer'' ''config'' (snd (metricKVMaps ! 0)) MetricKVConverter"
  let ?rows1 = "\<lparr>rowsColumns = Inr [''key'', ''value''],
                    rowsNext = [ScanOK [CString ''max_client_conn'', CString ''abc''],
                                ScanFail ''bad connection'',
                                ScanOK [CString ''max_client_conn'', CString ''abc'']],
                    rowsErr = None\<rparr>"
  let ?rows2 = "\<lparr>rowsColumns = Inr [''key'', ''value''],
                    rowsNext = [ScanOK [CString ''max_client_conn'', CString ''abc''],
                                ScanOK [CNil, CString ''5''],
                                ScanOK [CString ''max_client_conn'', CString ''abc'']],
                    rowsErr = None\<rparr>"
  let ?db1 = "\<lambda>q. if q = ''SHOW config;'' then Inr ?rows1 else Inl ''unknown command''"
  let ?db2 = "\<lambda>q. if q = ''SHOW config;'' then Inr ?rows2 else Inl ''unknown command''"
  have ns: "namespace ?m = ''config''"
    by (simp add: convert_def Let_def)
  have q: "queryString ?m = ''SHOW config;''"
    by (simp add: queryString_def ns)
  have pre: "queryRows (\<lambda>s. None) ?m
           \<lparr>ColumnNames = [''key'', ''value''], ColumnIdx = makeColumnIdx 0 [''key'', ''value''] Map.empty,
            ColumnData = replicate (length [''key'', ''value'']) CNil\<rparr>
           [ScanOK [CString ''max_client_conn'', CString ''abc'']] None [] []
         = ([], Inr ([KVValueError ''config'' ''max_client_conn'' (CString ''abc'')], None))"
    by (simp add: scanInto_def config_row_value_error)
  have d1: "?db1 (queryString ?m) = Inr ?rows1" by (simp add: q)
  have d2: "?db2 (queryString ?m) = Inr ?rows2" by (simp add: q)
  have c1: "rowsColumns ?rows1 = Inr [''key'', ''value'']" by simp
  have c2: "rowsColumns ?rows2 = Inr [''key'', ''value'']" by simp
  have a: "Query (\<lambda>s. None) ?m ?db1 = ([], Inr ([], Some (RowScanError ''config'' ''bad connection'')))"
    using Query_fatal_paths[where db="?db1" and m="?m" and rows="?rows1" and pf="\<lambda>s. None"
            and names="[''key'', ''value'']"
            and pre="[ScanOK [CString ''max_client_conn'', CString ''abc'']]"
            and ch="[]" and nonfatal="[KVValueError ''config'' ''max_client_conn'' (CString ''abc'')]"
            and e="''bad connection''"
            and post="[ScanOK [CString ''max_client_conn'', CString ''abc'']]"]
          d1 c1 pre
    by (simp add: ns)
  have b: "Query (\<lambda>s. None) ?m ?db2
            = ([], Inr ([KVValueError ''config'' ''max_client_conn'' (CString ''abc'')],
                        Some (KVKeyNotString ''config'' [CNil, CString ''5''])))"
    using Query_fatal_paths[where db="?db2" and m="?m" and rows="?rows2" and pf="\<lambda>s. None"
            and names="[''key'', ''value'']"
            and pre="[ScanOK [CString ''max_client_conn'', CString ''abc'']]"
            and ch="[]" and nonfatal="[KVValueError ''config'' ''max_client_conn'' (CString ''abc'')]"
            and cells="[CNil, CString ''5'']"
            and post="[ScanOK [CString ''max_client_conn'', CString ''abc'']]"
            and out="[]" and n="[]"
            and fatal="KVKeyNotString ''config'' [CNil, CString ''5'']"]
          d2 c2 pre
    by (simp add: scanInto_def config_row_key_not_string)
  from a b show ?thesis by simp
qed

section \<open>The poll\<close>

text \<open>
  C7: for every poll in which the liveness probe fails, \<open>scrape\<close> sets \<open>up\<close> to 0,
  records the poll duration and returns early: no namespace status query is
  issued (the probe is the only query) and nothing is sent other than the four
  health metrics; when the probe succeeds, \<open>up\<close> is set to 1 before the namespaces
  are scraped, and nothing in the rest of the poll changes it.
\<close>

lemma scrapeMappings_up:
  "up (exporter (scrapeMappings pf db maps e ch qs)) = up e"
  by (induction maps arbitrary: e ch qs)
     (simp_all split: prod.splits sum.splits option.splits)

theorem scrape_liveness_probe:
  "(db ''SHOW STATS'' = Inl probeError \<longrightarrow>
      ending (Collect pf db elapsed e) = Returns
      \<and> up (exporter (Collect pf db elapsed e)) = f64_zero
      \<and> duration (exporter (Collect pf db elapsed e)) = elapsed
      \<and> queries (Collect pf db elapsed e) = [''SHOW STATS'']
      \<and> sent (Collect pf db elapsed e) = healthMetrics (exporter (Collect pf db elapsed e)))
   \<and> (db' ''SHOW STATS'' = Inr probeRows \<longrightarrow>
        (\<exists>e1. up e1 = f64_one
           \<and> scrape pf db' elapsed e =
               (let r = scrapeMappings pf db' (metricMap e) e1 [] [''SHOW STATS'']
                in case ending r of Exits fatal \<Rightarrow> r
                   | _ \<Rightarrow> r\<lparr>exporter := (exporter r)\<lparr>duration := elapsed\<rparr>\<rparr>))
        \<and> up (exporter (scrape pf db' elapsed e)) = f64_one)"
proof -
  have a: "db ''SHOW STATS'' = Inl probeError \<longrightarrow>
      ending (Collect pf db elapsed e) = Returns
      \<and> up (exporter (Collect pf db elapsed e)) = f64_zero
      \<and> duration (exporter (Collect pf db elapsed e)) = elapsed
      \<and> queries (Collect pf db elapsed e) = [''SHOW STATS'']
      \<and> sent (Collect pf db elapsed e) = healthMetrics (exporter (Collect pf db elapsed e))"
    by (simp add: Collect_def scrape_def Let_def)
  have b: "db' ''SHOW STATS'' = Inr probeRows \<longrightarrow>
        (\<exists>e1. up e1 = f64_one
           \<and> scrape pf db' elapsed e =
               (let r = scrapeMappings pf db' (metricMap e) e1 [] [''SHOW STATS'']
                in case ending r of Exits fatal \<Rightarrow> r
                   | _ \<Rightarrow> r\<lparr>exporter := (exporter r)\<lparr>duration := elapsed\<rparr>\<rparr>))"
  proof
    assume p: "db' ''SHOW STATS'' = Inr probeRows"
    let ?e1 = "e\<lparr>error := f64_zero, totalScrapes := f64_add (totalScrapes e) f64_one, up := f64_one\<rparr>"
    have "up ?e1 = f64_one" by simp
    moreover have "scrape pf db' elapsed e =
               (let r = scrapeMappings pf db' (metricMap e) ?e1 [] [''SHOW STATS'']
                in case ending r of Exits fatal \<Rightarrow> r
                   | _ \<Rightarrow> r\<lparr>exporter := (exporter r)\<lparr>duration := elapsed\<rparr>\<rparr>)"
      using p by (simp add: scrape_def Let_def cong: ending.case_cong)
    ultimately show "\<exists>e1. up e1 = f64_one
           \<and> scrape pf db' elapsed e =
               (let r = scrapeMappings pf db' (metricMap e) e1 [] [''SHOW STATS'']
                in case ending r of Exits fatal \<Rightarrow> r
                   | _ \<Rightarrow> r\<lparr>exporter := (exporter r)\<lparr>duration := elapsed\<rparr>\<rparr>)"
      by blast
  qed
  have c: "db' ''SHOW STATS'' = Inr probeRows \<longrightarrow> up (exporter (scrape pf db' elapsed e)) = f64_one"
    by (simp add: scrape_def Let_def scrapeMappings_up split: ending.splits)
  from a b c show ?thesis by blast
qed

theorem scrape_liveness_probe_witness:
  "ending (Collect (\<lambda>s. None) (\<lambda>q. Inl ''connection refused'') f64_one (NewExporter ''pgbouncer'')) = Returns
   \<and> up (exporter (Collect (\<lambda>s. None) (\<lambda>q. Inl ''connection refused'') f64_one (NewExporter ''pgbouncer''))) = f64_zero
   \<and> duration (exporter (Collect (\<lambda>s. None) (\<lambda>q. Inl ''connection refused'') f64_one (NewExporter ''pgbouncer''))) = f64_one
   \<and> queries (Collect (\<lambda>s. None) (\<lambda>q. Inl ''connection refused'') f64_one (NewExporter ''pgbouncer'')) = [''SHOW STATS'']
   \<and> sent (Collect (\<lambda>s. None) (\<lambda>q. Inl ''connection refused'') f64_one (NewExporter ''pgbouncer''))
       = [GaugeMetric ''pgbouncer_last_scrape_duration_seconds'' f64_one,
          GaugeMetric ''pgbouncer_up'' f64_zero,
          CounterMetric ''pgbouncer_scrapes_total'' (f64_add f64_zero f64_one),
          GaugeMetric ''pgbouncer_last_scrape_error'' f64_one]
   \<and> up (exporter (scrape (\<lambda>s. None)
           (\<lambda>q. if q = ''SHOW STATS''
                then Inr \<lparr>rowsColumns = Inr [''database''], rowsNext = [], rowsErr = None\<rparr>
                else Inl ''connection reset'')
           f64_one (NewExporter ''pgbouncer''))) = f64_one"
proof -
  have h: "healthMetrics (exporter (Collect (\<lambda>s. None) (\<lambda>q. Inl ''connection refused'') f64_one (NewExporter ''pgbouncer'')))
       = [GaugeMetric ''pgbouncer_last_scrape_duration_seconds'' f64_one,
          GaugeMetric ''pgbouncer_up'' f64_zero,
          CounterMetric ''pgbouncer_scrapes_total'' (f64_add f64_zero f64_one),
          GaugeMetric ''pgbouncer_last_scrape_error'' f64_one]"
    by (simp add: healthMetrics_def Collect_def scrape_def Let_def NewExporter_def)
  show ?thesis
    using scrape_liveness_probe[of "\<lambda>q. Inl ''connection refused''" "''connection refused''"
            "\<lambda>s. None" f64_one "NewExporter ''pgbouncer''"
            "\<lambda>q. if q = ''SHOW STATS''
                 then Inr \<lparr>rowsColumns = Inr [''database''], rowsNext = [], rowsErr = None\<rparr>
                 else Inl ''connection reset''"
            "\<lparr>rowsColumns = Inr [''database''], rowsNext = [], rowsErr = None\<rparr>"]
    by (simp add: h)
qed

text \<open>
  C1, on the code: with the probe answered and the first namespace's status
  query refused, or its column list unreadable, the poll does not return to the
  caller: \<open>scrape\<close> calls \<^verbatim>\<open>log.Fatal\<close>, which ends the process.
\<close>

lemma scrapeMappings_query_error:
  "db (queryString mapping) = Inl e0 \<Longrightarrow>
   scrapeMappings pf db (mapping # rest) e ch qs =
     \<lparr>exporter = e, sent = ch, queries = qs @ [queryString mapping],
      ending = Exits (QueryError (namespace mapping) e0)\<rparr>"
  by (simp add: Query_def)

lemma scrapeMappings_columns_error:
  "db (queryString mapping) = Inr rows \<Longrightarrow> rowsColumns rows = Inl e0 \<Longrightarrow>
   scrapeMappings pf db (mapping # rest) e ch qs =
     \<lparr>exporter = e, sent = ch, queries = qs @ [queryString mapping],
      ending = Exits (ColumnListError (namespace mapping) e0)\<rparr>"
  by (simp add: Query_def)

lemma makeMetricMaps_first:
  "\<exists>rest. makeMetricMaps p =
      convert p ''databases'' (snd (metricRowMaps ! 0)) MetricRowConverter # rest"
  by (simp add: makeMetricMaps_def metricRowMaps_def)

theorem Collect_fatal_error_exits:
  "ending (Collect (\<lambda>s. None)
      (\<lambda>q. if q = ''SHOW STATS''
           then Inr \<lparr>rowsColumns = Inr [''database''], rowsNext = [], rowsErr = None\<rparr>
           else Inl ''connection reset'')
      f64_one (NewExporter ''pgbouncer''))
     = Exits (QueryError ''databases'' ''connection reset'')
   \<and> ending (Collect (\<lambda>s. None)
      (\<lambda>q. if q = ''SHOW STATS''
           then Inr \<lparr>rowsColumns = Inr [''database''], rowsNext = [], rowsErr = None\<rparr>
           else Inr \<lparr>rowsColumns = Inl ''rows are closed'', rowsNext = [], rowsErr = None\<rparr>)
      f64_one (NewExporter ''pgbouncer''))
     = Exits (ColumnListError ''databases'' ''rows are closed'')"
proof -
  let ?db1 = "\<lambda>q. if q = ''SHOW STATS''
           then Inr \<lparr>rowsColumns = Inr [''database''], rowsNext = [], rowsErr = None\<rparr>
           else Inl ''connection reset''"
  let ?db2 = "\<lambda>q. if q = ''SHOW STATS''
           then Inr \<lparr>rowsColumns = Inr [''database''], rowsNext = [], rowsErr = None\<rparr>
           else Inr \<lparr>rowsColumns = Inl ''rows are closed'', rowsNext = [], rowsErr = None\<rparr>"
  let ?m = "convert ''pgbouncer'' ''databases'' (snd (metricRowMaps ! 0)) MetricRowConverter"
  obtain rest where mm: "makeMetricMaps ''pgbouncer'' = ?m # rest"
    using makeMetricMaps_first by blast
  have ns: "namespace ?m = ''databases''"
    by (simp add: convert_def Let_def)
  have q: "queryString ?m = ''SHOW databases;''"
    by (simp add: queryString_def ns)
  have d1: "?db1 (queryString ?m) = Inl ''connection reset''"
    by (simp add: q)
  have d2: "?db2 (queryString ?m) = Inr \<lparr>rowsColumns = Inl ''rows are closed'', rowsNext = [], rowsErr = None\<rparr>"
    by (simp add: q)
  have s1: "\<And>e ch qs. ending (scrapeMappings (\<lambda>s. None) ?db1 (makeMetricMaps ''pgbouncer'') e ch qs)
              = Exits (QueryError ''databases'' ''connection reset'')"
    unfolding mm using scrapeMappings_query_error[of ?db1 ?m, OF d1] by (simp add: ns)
  have s2: "\<And>e ch qs. ending (scrapeMappings (\<lambda>s. None) ?db2 (makeMetricMaps ''pgbouncer'') e ch qs)
              = Exits (ColumnListError ''databases'' ''rows are closed'')"
    unfolding mm using scrapeMappings_columns_error[of ?db2 ?m, OF d2] by (simp add: ns)
  have a: "ending (Collect (\<lambda>s. None) ?db1 f64_one (NewExporter ''pgbouncer''))
             = Exits (QueryError ''databases'' ''connection reset'')"
    by (simp add: Collect_def scrape_def Let_def NewExporter_def s1)
  have b: "ending (Collect (\<lambda>s. None) ?db2 f64_one (NewExporter ''pgbouncer''))
             = Exits (ColumnListError ''databases'' ''rows are closed'')"
    by (simp add: Collect_def scrape_def Let_def NewExporter_def s2)
  from a b show ?thesis by blast
qed

section \<open>Row converter: label values\<close>

lemma appendLabel_kinds:
  "c = CNil \<or> (\<exists>v. c = CInt v) \<or> (\<exists>v. c = CString v) \<Longrightarrow>
   \<exists>t. appendLabel acc c = acc @ [t]
       \<and> (c = CNil \<longrightarrow> t = [])
       \<and> (\<forall>v. c = CInt v \<longrightarrow> t = FormatInt v)
       \<and> (\<forall>v. c = CString v \<longrightarrow> t = v)"
  by auto

lemma collectLabels_kinds:
  assumes "\<forall>name \<in> set names. \<exists>c.
             indexData (ColumnData result) (mapIndex (ColumnIdx result) name) = Inr c
             \<and> (c = CNil \<or> (\<exists>v. c = CInt v) \<or> (\<exists>v. c = CString v))"
  shows "\<exists>lv. collectLabels result names acc = Inr (acc @ lv)
           \<and> length lv = length names
           \<and> (\<forall>i < length names. \<forall>c.
                 indexData (ColumnData result) (mapIndex (ColumnIdx result) (names ! i)) = Inr c \<longrightarrow>
                   (c = CNil \<longrightarrow> lv ! i = [])
                 \<and> (\<forall>v. c = CInt v \<longrightarrow> lv ! i = FormatInt v)
                 \<and> (\<forall>v. c = CString v \<longrightarrow> lv ! i = v))"
  using assms
proof (induction names arbitrary: acc)
  case Nil
  then show ?case by simp
next
  case (Cons name names)
  from Cons.prems obtain c where c: "indexData (ColumnData result) (mapIndex (ColumnIdx result) name) = Inr c"
    and k: "c = CNil \<or> (\<exists>v. c = CInt v) \<or> (\<exists>v. c = CString v)"
    by auto
  from appendLabel_kinds[OF k, of acc] obtain t where t: "appendLabel acc c = acc @ [t]"
    and t1: "c = CNil \<longrightarrow> t = []"
    and t2: "\<forall>v. c = CInt v \<longrightarrow> t = FormatInt v"
    and t3: "\<forall>v. c = CString v \<longrightarrow> t = v"
    by blast
  from Cons.prems have rest: "\<forall>name \<in> set names. \<exists>c.
             indexData (ColumnData result) (mapIndex (ColumnIdx result) name) = Inr c
             \<and> (c = CNil \<or> (\<exists>v. c = CInt v) \<or> (\<exists>v. c = CString v))"
    by simp
  from Cons.IH[OF rest, of "acc @ [t]"] obtain lv where
      lv: "collectLabels result names (acc @ [t]) = Inr ((acc @ [t]) @ lv)"
    and len: "length lv = length names"
    and each: "\<forall>i < length names. \<forall>c.
                 indexData (ColumnData result) (mapIndex (ColumnIdx result) (names ! i)) = Inr c \<longrightarrow>
                   (c = CNil \<longrightarrow> lv ! i = [])
                 \<and> (\<forall>v. c = CInt v \<longrightarrow> lv ! i = FormatInt v)
                 \<and> (\<forall>v. c = CString v \<longrightarrow> lv ! i = v)"
    by blast
  have 1: "collectLabels result (name # names) acc = Inr (acc @ (t # lv))"
    using c t lv by simp
  have 2: "length (t # lv) = length (name # names)" using len by simp
  have 3: "\<forall>i < length (name # names). \<forall>c.
                 indexData (ColumnData result) (mapIndex (ColumnIdx result) ((name # names) ! i)) = Inr c \<longrightarrow>
                   (c = CNil \<longrightarrow> (t # lv) ! i = [])
                 \<and> (\<forall>v. c = CInt v \<longrightarrow> (t # lv) ! i = FormatInt v)
                 \<and> (\<forall>v. c = CString v \<longrightarrow> (t # lv) ! i = v)"
  proof (intro allI impI)
    fix i c'
    assume i: "i < length (name # names)"
      and c': "indexData (ColumnData result) (mapIndex (ColumnIdx result) ((name # names) ! i)) = Inr c'"
    show "(c' = CNil \<longrightarrow> (t # lv) ! i = [])
                 \<and> (\<forall>v. c' = CInt v \<longrightarrow> (t # lv) ! i = FormatInt v)
                 \<and> (\<forall>v. c' = CString v \<longrightarrow> (t # lv) ! i = v)"
    proof (cases i)
      case 0
      then have "c' = c" using c c' by simp
      then show ?thesis using 0 t1 t2 t3 by simp
    next
      case (Suc j)
      then have "j < length names" using i by simp
      then show ?thesis using each c' Suc by simp
    qed
  qed
  from 1 2 3 show ?case by blast
qed

lemma convertColumns_sent:
  "x \<in> set (fst (convertColumns pf m result labelValues idx cols ch nf)) \<Longrightarrow>
   x \<in> set ch \<or> (\<exists>d vt v. x = ConstMetric d vt v labelValues)"
proof (induction cols arbitrary: idx ch nf)
  case Nil
  then show ?case by simp
next
  case (Cons columnName rest)
  show ?case
  proof (cases "columnMappings m columnName")
    case None
    then show ?thesis using Cons.prems Cons.IH by simp
  next
    case (Some mm)
    show ?thesis
    proof (cases "indexData (ColumnData result) (int idx)")
      case (Inl p)
      then show ?thesis using Cons.prems Some by simp
    next
      case (Inr c)
      show ?thesis
      proof (cases "snd (dbToFloat64 pf c)")
        case False
        then show ?thesis using Cons.prems Cons.IH Some Inr by simp
      next
        case True
        show ?thesis
        proof (cases "length labelValues = length (variableLabels (desc mm))")
          case False
          then show ?thesis using Cons.prems Some Inr True
            by (simp add: MustNewConstMetric_def)
        next
          case eq: True
          let ?metric = "ConstMetric (desc mm) (vtype mm)
                           (f64_mul (fst (dbToFloat64 pf c)) (multiplier mm)) labelValues"
          from Cons.prems Some Inr True eq
          have "x \<in> set (fst (convertColumns pf m result labelValues (Suc idx) rest (ch @ [?metric]) nf))"
            by (simp add: MustNewConstMetric_def)
          from Cons.IH[OF this] show ?thesis by auto
        qed
      qed
    qed
  qed
qed

lemma metricRowConverter_no_fatal:
  "snd (metricRowConverter pf m result) \<noteq> Inr (n, Some e)"
  by (simp add: metricRowConverter_def split: sum.splits prod.splits)

text \<open>
  C2, as stated, at three single-row inputs with the one label column
  \<open>database\<close>: a text cell is resolved to the text itself, not to the empty
  string; a raw-byte cell and a floating-point cell add no entry at all, so the
  label-value list has no entry for the label column.
\<close>

theorem collectLabels_text_and_other_kinds:
  "collectLabels \<lparr>ColumnNames = [''database''], ColumnIdx = [''database'' \<mapsto> 0],
                   ColumnData = [CString ''db1'']\<rparr> [''database''] [] = Inr [''db1'']
   \<and> collectLabels \<lparr>ColumnNames = [''database''], ColumnIdx = [''database'' \<mapsto> 0],
                   ColumnData = [CBytes ''db1'']\<rparr> [''database''] [] = Inr []
   \<and> collectLabels \<lparr>ColumnNames = [''database''], ColumnIdx = [''database'' \<mapsto> 0],
                   ColumnData = [CFloat (FFin False 6755399441055744 (- 52))]\<rparr> [''database''] [] = Inr []"
  by (simp add: indexData_def mapIndex_def)

text \<open>
  C2 (amended): for every single-row input to the row converter, each label
  column's value is resolved to a string as follows: a null cell becomes the empty
  string, an integer cell becomes its base-10 text form, and a text cell becomes
  the text itself (never a fatal error); the resolved label values are collected
  in the order of \<open>labels\<close> fixed at build time, so that, when every label
  column's cell is null, an integer or text, the emitted label-value list has
  exactly one entry per label column.
\<close>

theorem metricRowConverter_labels:
  assumes "\<forall>name \<in> set (labels m). \<exists>c.
             indexData (ColumnData result) (mapIndex (ColumnIdx result) name) = Inr c
             \<and> (c = CNil \<or> (\<exists>v. c = CInt v) \<or> (\<exists>v. c = CString v))"
  shows "\<exists>labelValues.
           collectLabels result (labels m) [] = Inr labelValues
         \<and> length labelValues = length (labels m)
         \<and> (\<forall>i < length (labels m). \<forall>c.
               indexData (ColumnData result) (mapIndex (ColumnIdx result) (labels m ! i)) = Inr c \<longrightarrow>
                 (c = CNil \<longrightarrow> labelValues ! i = [])
               \<and> (\<forall>v. c = CInt v \<longrightarrow> labelValues ! i = FormatInt v)
               \<and> (\<forall>v. c = CString v \<longrightarrow> labelValues ! i = v))
         \<and> (\<forall>x \<in> set (fst (metricRowConverter pf m result)).
               \<exists>d vt v. x = ConstMetric d vt v labelValues)
         \<and> (\<forall>n e. snd (metricRowConverter pf m result) \<noteq> Inr (n, Some e))"
proof -
  from collectLabels_kinds[OF assms, of "[]"] obtain lv where
      1: "collectLabels result (labels m) [] = Inr lv"
    and 2: "length lv = length (labels m)"
    and 3: "\<forall>i < length (labels m). \<forall>c.
               indexData (ColumnData result) (mapIndex (ColumnIdx result) (labels m ! i)) = Inr c \<longrightarrow>
                 (c = CNil \<longrightarrow> lv ! i = [])
               \<and> (\<forall>v. c = CInt v \<longrightarrow> lv ! i = FormatInt v)
               \<and> (\<forall>v. c = CString v \<longrightarrow> lv ! i = v)"
    by auto
  have 4: "\<forall>x \<in> set (fst (metricRowConverter pf m result)). \<exists>d vt v. x = ConstMetric d vt v lv"
  proof
    fix x assume x: "x \<in> set (fst (metricRowConverter pf m result))"
    then have "x \<in> set (fst (convertColumns pf m result lv 0 (ColumnNames result) [] []))"
      by (simp add: metricRowConverter_def 1 split: prod.splits sum.splits)
    from convertColumns_sent[OF this] show "\<exists>d vt v. x = ConstMetric d vt v lv" by simp
  qed
  have 5: "\<forall>n e. snd (metricRowConverter pf m result) \<noteq> Inr (n, Some e)"
    by (simp add: metricRowConverter_no_fatal)
  from 1 2 3 4 5 show ?thesis by blast
qed

lemma FormatInt_examples:
  "FormatInt 6432 = ''6432''" "FormatInt (- 15) = ''-15''" "FormatInt 0 = ''0''"
  by (simp_all add: FormatInt_def digits10.simps)

theorem metricRowConverter_labels_witness:
  "\<exists>labelValues.
     collectLabels \<lparr>ColumnNames = [''name'', ''port'', ''pool_mode''],
                     ColumnIdx = [''name'' \<mapsto> 0, ''port'' \<mapsto> 1, ''pool_mode'' \<mapsto> 2],
                     ColumnData = [CString ''db1'', CInt 6432, CNil]\<rparr>
       [''name'', ''port'', ''pool_mode''] [] = Inr labelValues
     \<and> length labelValues = 3
     \<and> labelValues ! 0 = ''db1'' \<and> labelValues ! 1 = ''6432'' \<and> labelValues ! 2 = ''''"
proof -
  let ?m = "\<lparr>namespace = ''databases'', columnMappings = Map.empty,
             labels = [''name'', ''port'', ''pool_mode''], rowFunc = MetricRowConverter\<rparr>"
  let ?r = "\<lparr>ColumnNames = [''name'', ''port'', ''pool_mode''],
             ColumnIdx = [''name'' \<mapsto> 0, ''port'' \<mapsto> 1, ''pool_mode'' \<mapsto> 2],
             ColumnData = [CString ''db1'', CInt 6432, CNil]\<rparr>"
  have h: "\<forall>name \<in> set (labels ?m). \<exists>c.
             indexData (ColumnData ?r) (mapIndex (ColumnIdx ?r) name) = Inr c
             \<and> (c = CNil \<or> (\<exists>v. c = CInt v) \<or> (\<exists>v. c = CString v))"
    by (simp add: indexData_def mapIndex_def)
  from metricRowConverter_labels[OF h, of "\<lambda>s. None"] obtain lv where
      1: "collectLabels ?r (labels ?m) [] = Inr lv"
    and 2: "length lv = length (labels ?m)"
    and 3: "\<forall>i < length (labels ?m). \<forall>c.
               indexData (ColumnData ?r) (mapIndex (ColumnIdx ?r) (labels ?m ! i)) = Inr c \<longrightarrow>
                 (c = CNil \<longrightarrow> lv ! i = [])
               \<and> (\<forall>v. c = CInt v \<longrightarrow> lv ! i = FormatInt v)
               \<and> (\<forall>v. c = CString v \<longrightarrow> lv ! i = v)"
    by blast
  have a: "lv ! 0 = ''db1''"
    using 3[rule_format, of 0 "CString ''db1''"] by (simp add: indexData_def mapIndex_def)
  have b: "lv ! 1 = ''6432''"
    using 3[rule_format, of 1 "CInt 6432"] by (simp add: indexData_def mapIndex_def FormatInt_examples)
  have c: "lv ! 2 = ''''"
    using 3[rule_format, of 2 CNil] by (simp add: indexData_def mapIndex_def)
  from 1 2 a b c show ?thesis by simp
qed

end
